theory Spec2Isabelle
  imports Main
begin

section \<open>JavaScript values, completions and caller-supplied functions\<close>

text \<open>
  The pipeline engine of \<^verbatim>\<open>Gluify.ts\<close> moves values of type \<^verbatim>\<open>unknown\<close> around and
  inspects them in three places only: the truthiness test \<^verbatim>\<open>if (error)\<close>, the test
  \<^verbatim>\<open>value instanceof Promise\<close>, and \<^verbatim>\<open>await\<close>. The value universe below is the part
  of JavaScript needed for these: primitives, \<^verbatim>\<open>Error\<close> objects (by message), references
  to arrays and to other objects, and promises. A promise is represented by the way it
  eventually settles; by JavaScript's resolution procedure a promise is never fulfilled
  with another promise, which the two-level type makes unrepresentable. Numbers are the
  integral ones; the engine never computes with them.
\<close>

datatype plain =
    Undefined
  | Null
  | Bool bool
  | Num int
  | Str string
  | Err string
  | Arr nat
  | Obj nat

datatype val = Plain plain | Promise settled
and settled = Fulfilled plain | Rejected val | Forever

text \<open>ECMAScript \<^verbatim>\<open>ToBoolean\<close>, which every \<^verbatim>\<open>if (x)\<close> applies to its condition.\<close>

fun truthy :: "val \<Rightarrow> bool" where
  "truthy (Plain Undefined) = False"
| "truthy (Plain Null) = False"
| "truthy (Plain (Bool b)) = b"
| "truthy (Plain (Num n)) = (n \<noteq> 0)"
| "truthy (Plain (Str s)) = (s \<noteq> [])"
| "truthy (Plain (Err m)) = True"
| "truthy (Plain (Arr a)) = True"
| "truthy (Plain (Obj a)) = True"
| "truthy (Promise p) = True"

text \<open>
  A call either returns a value or throws one (any value can be thrown). A caller-supplied
  function may have side effects: it reads and updates a world \<open>'w\<close>, which the model
  threads through every call in the order the calls happen.
\<close>

datatype completion = Return val | Throw val

type_synonym 'w effect = "'w \<Rightarrow> completion \<times> 'w"

text \<open>
  \<^verbatim>\<open>type Operation = (value: unknown) => unknown\<close>, and
  \<^verbatim>\<open>interface ErrorHandlerOperation extends Operation\<close>, an operation that carries the
  marker \<^verbatim>\<open>__isErrorHandler\<close> and the field \<^verbatim>\<open>__handler\<close>.
\<close>

datatype 'w operation =
    Operation "val \<Rightarrow> 'w effect"
  | ErrorHandlerOperation "val \<Rightarrow> 'w effect" "val \<Rightarrow> 'w effect"

fun isErrorHandler :: "'w operation \<Rightarrow> bool" where
  "isErrorHandler (Operation f) = False"
| "isErrorHandler (ErrorHandlerOperation f h) = True"

section \<open>The class \<^verbatim>\<open>Gluify\<close>\<close>

record 'w Gluify =
  initialValue :: val
  operations :: "'w operation list"
  isLazy :: bool
  lazyInitializer :: "'w effect option"

definition createNext :: "'w Gluify \<Rightarrow> 'w operation list \<Rightarrow> 'w Gluify" where
  "createNext this newOperations =
     \<lparr>initialValue = initialValue this, operations = newOperations,
      isLazy = isLazy this, lazyInitializer = lazyInitializer this\<rparr>"

text \<open>
  \<^verbatim>\<open>gluify(fn, ...args)\<close>: the producer and its arguments are stored, not called.
\<close>

definition gluify :: "(val list \<Rightarrow> 'w effect) \<Rightarrow> val list \<Rightarrow> 'w Gluify" where
  "gluify fn args =
     \<lparr>initialValue = Plain Undefined, operations = [],
      isLazy = True, lazyInitializer = Some (fn args)\<rparr>"

subsection \<open>Promises, \<^verbatim>\<open>await\<close> and \<^verbatim>\<open>async\<close> functions\<close>

text \<open>
  \<^verbatim>\<open>await x\<close> yields \<open>x\<close> itself when \<open>x\<close> is no promise, the fulfilment value of a
  fulfilled promise, throws the reason of a rejected one, and never resumes (\<open>None\<close>) on
  a promise that never settles.
\<close>

fun await :: "val \<Rightarrow> completion option" where
  "await (Plain x) = Some (Return (Plain x))"
| "await (Promise (Fulfilled x)) = Some (Return (Plain x))"
| "await (Promise (Rejected e)) = Some (Throw e)"
| "await (Promise Forever) = None"

fun instanceofPromise :: "val \<Rightarrow> bool" where
  "instanceofPromise (Plain x) = False"
| "instanceofPromise (Promise p) = True"

text \<open>
  The promise an \<^verbatim>\<open>async\<close> function returns: it adopts a returned promise, is
  fulfilled with any other returned value, is rejected with a thrown value, and stays
  pending when the body never gets past an \<^verbatim>\<open>await\<close>. A promise carries its
  settlement from the call on, and the effects of the body on the world are placed at
  the call. That is the order of effects when the body meets no \<^verbatim>\<open>await\<close>, and when
  the caller awaits the promise before it does anything else, as \<^verbatim>\<open>runAsync\<close> does
  with every step. It is not the order of JavaScript when a body that awaits is called
  by code that goes on without awaiting it: there the rest of the body runs after the
  caller has finished. Such is a \<^verbatim>\<open>pipeAsync\<close> step that receives a promise under the
  synchronous \<^verbatim>\<open>run\<close>, for which the model gives the returned promise only, not the
  moment of the effects; nothing below is stated about that case.
\<close>

fun resolve :: "val \<Rightarrow> val" where
  "resolve (Plain x) = Promise (Fulfilled x)"
| "resolve (Promise p) = Promise p"

fun settle :: "completion option \<Rightarrow> val" where
  "settle None = Promise Forever"
| "settle (Some (Return r)) = resolve r"
| "settle (Some (Throw e)) = Promise (Rejected e)"

definition async :: "('w \<Rightarrow> completion option \<times> 'w) \<Rightarrow> 'w effect" where
  "async body w = (case body w of (c, w') \<Rightarrow> (Return (settle c), w'))"

text \<open>\<^verbatim>\<open>await f(...)\<close> inside a \<^verbatim>\<open>try\<close>: the call may throw, and so may the await.\<close>

fun awaitCall :: "completion \<times> 'w \<Rightarrow> completion option \<times> 'w" where
  "awaitCall (Throw e, w) = (Some (Throw e), w)"
| "awaitCall (Return r, w) = (await r, w)"

subsection \<open>Core builder methods\<close>

definition pipe :: "(val \<Rightarrow> val list \<Rightarrow> 'w effect) \<Rightarrow> val list \<Rightarrow> 'w Gluify \<Rightarrow> 'w Gluify" where
  "pipe fn args this =
     createNext this (operations this @ [Operation (\<lambda>value. fn value args)])"

definition pipeAsync_operation :: "(val \<Rightarrow> val list \<Rightarrow> 'w effect) \<Rightarrow> val list \<Rightarrow> val \<Rightarrow> 'w effect" where
  "pipeAsync_operation fn args value =
     async (\<lambda>w.
       case (if instanceofPromise value then await value else Some (Return value)) of
         None \<Rightarrow> (None, w)
       | Some (Throw e) \<Rightarrow> (Some (Throw e), w)
       | Some (Return resolvedValue) \<Rightarrow>
           (case fn resolvedValue args w of (c, w') \<Rightarrow> (Some c, w')))"

definition pipeAsync :: "(val \<Rightarrow> val list \<Rightarrow> 'w effect) \<Rightarrow> val list \<Rightarrow> 'w Gluify \<Rightarrow> 'w Gluify" where
  "pipeAsync fn args this =
     createNext this (operations this @ [Operation (pipeAsync_operation fn args)])"

definition tap_operation :: "(val \<Rightarrow> 'w effect) \<Rightarrow> val \<Rightarrow> 'w effect" where
  "tap_operation fn value w =
     (case fn value w of
        (Throw e, w') \<Rightarrow> (Throw e, w')
      | (Return ignored, w') \<Rightarrow> (Return value, w'))"

definition tap :: "(val \<Rightarrow> 'w effect) \<Rightarrow> 'w Gluify \<Rightarrow> 'w Gluify" where
  "tap fn this = createNext this (operations this @ [Operation (tap_operation fn)])"

definition catch :: "(val \<Rightarrow> 'w effect) \<Rightarrow> 'w Gluify \<Rightarrow> 'w Gluify" where
  "catch handler this =
     createNext this
       (operations this @ [ErrorHandlerOperation (\<lambda>value w. (Return value, w)) handler])"

definition recover :: "val \<Rightarrow> 'w Gluify \<Rightarrow> 'w Gluify" where
  "recover fallbackValue this = catch (\<lambda>e w. (Return fallbackValue, w)) this"

definition when_operation :: "(val \<Rightarrow> 'w effect) \<Rightarrow> (val \<Rightarrow> 'w effect) \<Rightarrow> val \<Rightarrow> 'w effect" where
  "when_operation predicate fn value w =
     (case predicate value w of
        (Throw e, w') \<Rightarrow> (Throw e, w')
      | (Return b, w') \<Rightarrow> (if truthy b then fn value w' else (Return value, w')))"

definition when' :: "(val \<Rightarrow> 'w effect) \<Rightarrow> (val \<Rightarrow> 'w effect) \<Rightarrow> 'w Gluify \<Rightarrow> 'w Gluify" where
  "when' predicate fn this =
     createNext this (operations this @ [Operation (when_operation predicate fn)])"

subsection \<open>The convenience catalogue\<close>

text \<open>
  Every convenience method wraps one operation of the JavaScript runtime. The runtime is
  not part of the repository, so it is a parameter: method calls without a callback
  (\<^verbatim>\<open>receiver.name(args)\<close>), array methods with an \<^verbatim>\<open>(item, index)\<close> callback,
  \<^verbatim>\<open>reduce\<close>, \<^verbatim>\<open>sort\<close> with its optional comparator, static calls and constructors,
  the spread forms \<^verbatim>\<open>[...x]\<close> and \<^verbatim>\<open>{...x, ...y}\<close>, and the property operators.
\<close>

record 'w natives =
  invoke :: "string \<Rightarrow> val \<Rightarrow> val list \<Rightarrow> 'w effect"
  iterate :: "string \<Rightarrow> val \<Rightarrow> (val \<Rightarrow> val \<Rightarrow> 'w effect) \<Rightarrow> 'w effect"
  Array_reduce :: "val \<Rightarrow> (val \<Rightarrow> val \<Rightarrow> val \<Rightarrow> 'w effect) \<Rightarrow> val \<Rightarrow> 'w effect"
  Array_sort :: "val \<Rightarrow> (val \<Rightarrow> val \<Rightarrow> completion) option \<Rightarrow> 'w effect"
  static :: "string \<Rightarrow> val list \<Rightarrow> 'w effect"
  spread_array :: "val \<Rightarrow> 'w effect"
  spread_object :: "val list \<Rightarrow> 'w effect"
  has_property :: "val \<Rightarrow> val \<Rightarrow> 'w effect"
  get_property :: "val \<Rightarrow> val \<Rightarrow> 'w effect"
  set_property :: "val \<Rightarrow> val \<Rightarrow> val \<Rightarrow> 'w effect"
  delete_property :: "val \<Rightarrow> val \<Rightarrow> 'w effect"

text \<open>Sequencing of two calls: a throw of the first skips the second.\<close>

definition andThen :: "'w effect \<Rightarrow> (val \<Rightarrow> 'w effect) \<Rightarrow> 'w effect" where
  "andThen m k w = (case m w of (Throw e, w') \<Rightarrow> (Throw e, w') | (Return v, w') \<Rightarrow> k v w')"

definition map' :: "'w natives \<Rightarrow> (val \<Rightarrow> val \<Rightarrow> 'w effect) \<Rightarrow> 'w Gluify \<Rightarrow> 'w Gluify" where
  "map' N fn this =
     createNext this (operations this @ [Operation (\<lambda>arr. iterate N ''map'' arr fn)])"

definition filter' :: "'w natives \<Rightarrow> (val \<Rightarrow> val \<Rightarrow> 'w effect) \<Rightarrow> 'w Gluify \<Rightarrow> 'w Gluify" where
  "filter' N predicate this =
     createNext this (operations this @ [Operation (\<lambda>arr. iterate N ''filter'' arr predicate)])"

definition reduce :: "'w natives \<Rightarrow> (val \<Rightarrow> val \<Rightarrow> val \<Rightarrow> 'w effect) \<Rightarrow> val \<Rightarrow> 'w Gluify \<Rightarrow> 'w Gluify" where
  "reduce N fn initialValue' this =
     createNext this (operations this @ [Operation (\<lambda>arr. Array_reduce N arr fn initialValue')])"

definition find' :: "'w natives \<Rightarrow> (val \<Rightarrow> val \<Rightarrow> 'w effect) \<Rightarrow> 'w Gluify \<Rightarrow> 'w Gluify" where
  "find' N predicate this =
     createNext this (operations this @ [Operation (\<lambda>arr. iterate N ''find'' arr predicate)])"

definition some :: "'w natives \<Rightarrow> (val \<Rightarrow> val \<Rightarrow> 'w effect) \<Rightarrow> 'w Gluify \<Rightarrow> 'w Gluify" where
  "some N predicate this =
     createNext this (operations this @ [Operation (\<lambda>arr. iterate N ''some'' arr predicate)])"

definition every :: "'w natives \<Rightarrow> (val \<Rightarrow> val \<Rightarrow> 'w effect) \<Rightarrow> 'w Gluify \<Rightarrow> 'w Gluify" where
  "every N predicate this =
     createNext this (operations this @ [Operation (\<lambda>arr. iterate N ''every'' arr predicate)])"

definition take' :: "'w natives \<Rightarrow> val \<Rightarrow> 'w Gluify \<Rightarrow> 'w Gluify" where
  "take' N n this =
     createNext this
       (operations this @ [Operation (\<lambda>arr. invoke N ''slice'' arr [Plain (Num 0), n])])"

definition skip :: "'w natives \<Rightarrow> val \<Rightarrow> 'w Gluify \<Rightarrow> 'w Gluify" where
  "skip N n this =
     createNext this (operations this @ [Operation (\<lambda>arr. invoke N ''slice'' arr [n])])"

definition sort_operation :: "'w natives \<Rightarrow> (val \<Rightarrow> val \<Rightarrow> completion) option \<Rightarrow> val \<Rightarrow> 'w effect" where
  "sort_operation N compareFn arr =
     andThen (spread_array N arr) (\<lambda>copy. Array_sort N copy compareFn)"

definition sort' :: "'w natives \<Rightarrow> (val \<Rightarrow> val \<Rightarrow> completion) option \<Rightarrow> 'w Gluify \<Rightarrow> 'w Gluify" where
  "sort' N compareFn this =
     createNext this (operations this @ [Operation (sort_operation N compareFn)])"

definition reverse_operation :: "'w natives \<Rightarrow> val \<Rightarrow> 'w effect" where
  "reverse_operation N arr =
     andThen (spread_array N arr) (\<lambda>copy. invoke N ''reverse'' copy [])"

definition reverse :: "'w natives \<Rightarrow> 'w Gluify \<Rightarrow> 'w Gluify" where
  "reverse N this = createNext this (operations this @ [Operation (reverse_operation N)])"

definition flat :: "'w natives \<Rightarrow> 'w Gluify \<Rightarrow> 'w Gluify" where
  "flat N this =
     createNext this (operations this @ [Operation (\<lambda>arr. invoke N ''flat'' arr [])])"

definition unique :: "'w natives \<Rightarrow> 'w Gluify \<Rightarrow> 'w Gluify" where
  "unique N this =
     createNext this
       (operations this @
        [Operation (\<lambda>arr. andThen (static N ''new Set'' [arr])
                            (\<lambda>set. static N ''Array.from'' [set]))])"

fun pick_loop :: "'w natives \<Rightarrow> val \<Rightarrow> val \<Rightarrow> val list \<Rightarrow> 'w effect" where
  "pick_loop N source res [] = (\<lambda>w. (Return res, w))"
| "pick_loop N source res (key # keys) =
     andThen (has_property N key source)
       (\<lambda>present.
          if truthy present then
            andThen (get_property N source key)
              (\<lambda>v. andThen (set_property N res key v) (\<lambda>u. pick_loop N source res keys))
          else pick_loop N source res keys)"

definition pick :: "'w natives \<Rightarrow> val list \<Rightarrow> 'w Gluify \<Rightarrow> 'w Gluify" where
  "pick N keys this =
     createNext this
       (operations this @
        [Operation (\<lambda>obj. andThen (spread_object N []) (\<lambda>res. pick_loop N obj res keys))])"

fun omit_loop :: "'w natives \<Rightarrow> val \<Rightarrow> val list \<Rightarrow> 'w effect" where
  "omit_loop N res [] = (\<lambda>w. (Return res, w))"
| "omit_loop N res (key # keys) =
     andThen (delete_property N res key) (\<lambda>u. omit_loop N res keys)"

definition omit :: "'w natives \<Rightarrow> val list \<Rightarrow> 'w Gluify \<Rightarrow> 'w Gluify" where
  "omit N keys this =
     createNext this
       (operations this @
        [Operation (\<lambda>obj. andThen (spread_object N [obj]) (\<lambda>res. omit_loop N res keys))])"

definition keys :: "'w natives \<Rightarrow> 'w Gluify \<Rightarrow> 'w Gluify" where
  "keys N this =
     createNext this (operations this @ [Operation (\<lambda>obj. static N ''Object.keys'' [obj])])"

definition values' :: "'w natives \<Rightarrow> 'w Gluify \<Rightarrow> 'w Gluify" where
  "values' N this =
     createNext this (operations this @ [Operation (\<lambda>obj. static N ''Object.values'' [obj])])"

definition entries :: "'w natives \<Rightarrow> 'w Gluify \<Rightarrow> 'w Gluify" where
  "entries N this =
     createNext this (operations this @ [Operation (\<lambda>obj. static N ''Object.entries'' [obj])])"

definition merge :: "'w natives \<Rightarrow> val \<Rightarrow> 'w Gluify \<Rightarrow> 'w Gluify" where
  "merge N other this =
     createNext this (operations this @ [Operation (\<lambda>obj. spread_object N [obj, other])])"

definition trim :: "'w natives \<Rightarrow> 'w Gluify \<Rightarrow> 'w Gluify" where
  "trim N this =
     createNext this (operations this @ [Operation (\<lambda>str. invoke N ''trim'' str [])])"

definition split :: "'w natives \<Rightarrow> val \<Rightarrow> 'w Gluify \<Rightarrow> 'w Gluify" where
  "split N separator this =
     createNext this (operations this @ [Operation (\<lambda>str. invoke N ''split'' str [separator])])"

definition join :: "'w natives \<Rightarrow> val \<Rightarrow> 'w Gluify \<Rightarrow> 'w Gluify" where
  "join N separator this =
     createNext this (operations this @ [Operation (\<lambda>arr. invoke N ''join'' arr [separator])])"

definition replace :: "'w natives \<Rightarrow> val \<Rightarrow> val \<Rightarrow> 'w Gluify \<Rightarrow> 'w Gluify" where
  "replace N searchValue replaceValue this =
     createNext this
       (operations this @
        [Operation (\<lambda>str. invoke N ''replace'' str [searchValue, replaceValue])])"

definition toUpperCase :: "'w natives \<Rightarrow> 'w Gluify \<Rightarrow> 'w Gluify" where
  "toUpperCase N this =
     createNext this (operations this @ [Operation (\<lambda>str. invoke N ''toUpperCase'' str [])])"

definition toLowerCase :: "'w natives \<Rightarrow> 'w Gluify \<Rightarrow> 'w Gluify" where
  "toLowerCase N this =
     createNext this (operations this @ [Operation (\<lambda>str. invoke N ''toLowerCase'' str [])])"

text \<open>\<^verbatim>\<open>value == null\<close> holds of \<^verbatim>\<open>null\<close> and \<^verbatim>\<open>undefined\<close> only; \<^verbatim>\<open>??\<close> tests the same.\<close>

definition nullish :: "val \<Rightarrow> bool" where
  "nullish value = (value = Plain Undefined \<or> value = Plain Null)"

definition defaultTo :: "val \<Rightarrow> 'w Gluify \<Rightarrow> 'w Gluify" where
  "defaultTo defaultValue this =
     createNext this
       (operations this @
        [Operation (\<lambda>value w. (Return (if nullish value then defaultValue else value), w))])"

definition isNil :: "'w Gluify \<Rightarrow> 'w Gluify" where
  "isNil this =
     createNext this
       (operations this @ [Operation (\<lambda>value w. (Return (Plain (Bool (nullish value))), w))])"

fun isArray :: "val \<Rightarrow> bool" where
  "isArray (Plain (Arr a)) = True"
| "isArray v = False"

fun typeof_object :: "val \<Rightarrow> bool" where
  "typeof_object (Plain Undefined) = False"
| "typeof_object (Plain (Bool b)) = False"
| "typeof_object (Plain (Num n)) = False"
| "typeof_object (Plain (Str s)) = False"
| "typeof_object v = True"

definition clone :: "'w natives \<Rightarrow> 'w Gluify \<Rightarrow> 'w Gluify" where
  "clone N this =
     createNext this
       (operations this @
        [Operation (\<lambda>value.
           if isArray value then spread_array N value
           else if typeof_object value \<and> value \<noteq> Plain Null then spread_object N [value]
           else (\<lambda>w. (Return value, w)))])"

section \<open>Arrays in the heap\<close>

text \<open>
  What \<^verbatim>\<open>sort\<close> and \<^verbatim>\<open>reverse\<close> do to their input depends on JavaScript's arrays being
  mutable objects. Here the world is a heap of arrays: \<open>Arr a\<close> refers to the \<open>a\<close>-th
  array allocated. \<^verbatim>\<open>[...x]\<close> allocates a new array holding the elements of \<open>x\<close>;
  \<^verbatim>\<open>Array.prototype.reverse\<close> and \<^verbatim>\<open>Array.prototype.sort\<close> overwrite the array they
  are called on and return that same reference. The order that \<^verbatim>\<open>sort\<close> produces is the
  runtime's business and a parameter \<open>sorter\<close>: from the comparator (a pure function
  that may throw; absent for the default order) and the contents it gives the new
  contents, and the value thrown if the comparator threw. A reference always points to
  an allocated array in JavaScript; the model throws on any other.
\<close>

type_synonym heap = "val list list"

definition not_iterable :: val where
  "not_iterable = Plain (Err ''TypeError: value is not iterable'')"

definition not_a_function :: val where
  "not_a_function = Plain (Err ''TypeError: not a function'')"

fun heap_spread :: "val \<Rightarrow> heap effect" where
  "heap_spread (Plain (Arr a)) h =
     (if a < length h then (Return (Plain (Arr (length h))), h @ [h ! a])
      else (Throw not_iterable, h))"
| "heap_spread (Plain (Str s)) h =
     (Return (Plain (Arr (length h))), h @ [map (\<lambda>c. Plain (Str [c])) s])"
| "heap_spread v h = (Throw not_iterable, h)"

fun heap_reverse :: "val \<Rightarrow> heap effect" where
  "heap_reverse (Plain (Arr a)) h =
     (if a < length h then (Return (Plain (Arr a)), h[a := rev (h ! a)])
      else (Throw not_a_function, h))"
| "heap_reverse v h = (Throw not_a_function, h)"

type_synonym sorter =
  "(val \<Rightarrow> val \<Rightarrow> completion) option \<Rightarrow> val list \<Rightarrow> val list \<times> val option"

fun heap_sort :: "sorter \<Rightarrow> val \<Rightarrow> (val \<Rightarrow> val \<Rightarrow> completion) option \<Rightarrow> heap effect" where
  "heap_sort sorter (Plain (Arr a)) compareFn h =
     (if a < length h then
        (case sorter compareFn (h ! a) of
           (xs, None) \<Rightarrow> (Return (Plain (Arr a)), h[a := xs])
         | (xs, Some e) \<Rightarrow> (Throw e, h[a := xs]))
      else (Throw not_a_function, h))"
| "heap_sort sorter v compareFn h = (Throw not_a_function, h)"

text \<open>A runtime whose arrays live in the heap.\<close>

definition heap_runtime :: "sorter \<Rightarrow> heap natives \<Rightarrow> bool" where
  "heap_runtime sorter N =
     (spread_array N = heap_spread \<and>
      invoke N ''reverse'' = (\<lambda>receiver args. heap_reverse receiver) \<and>
      Array_sort N = heap_sort sorter)"

section \<open>Execution\<close>

text \<open>
  The local variables of \<^verbatim>\<open>run\<close> and \<^verbatim>\<open>runAsync\<close> are \<open>result\<close> (declared without
  initialiser, hence \<^verbatim>\<open>undefined\<close>) and \<open>error\<close> (initially \<^verbatim>\<open>null\<close>). The frame also
  holds the world, and a ghost trace of the calls the executor makes: of the lazy
  initialiser, of the operation at an index of the step list with its argument, of the
  handler at an index with the error it receives.
\<close>

datatype event = SeedCall | OpCall nat val | HandlerCall nat val

record 'w frame =
  result :: val
  error :: val
  world :: 'w
  trace :: "event list"

subsection \<open>\<^verbatim>\<open>run\<close>\<close>

text \<open>The \<^verbatim>\<open>try\<close> block around the lazy initialiser.\<close>

definition run_init :: "'w Gluify \<Rightarrow> 'w \<Rightarrow> 'w frame" where
  "run_init this w =
     (case (if isLazy this then lazyInitializer this else None) of
        Some init \<Rightarrow>
          (case init w of
             (Return v, w') \<Rightarrow>
               \<lparr>result = v, error = Plain Null, world = w', trace = [SeedCall]\<rparr>
           | (Throw e, w') \<Rightarrow>
               \<lparr>result = Plain Undefined, error = e, world = w', trace = [SeedCall]\<rparr>)
      | None \<Rightarrow>
          \<lparr>result = initialValue this, error = Plain Null, world = w, trace = []\<rparr>)"

text \<open>One iteration of \<^verbatim>\<open>for (const op of this.operations)\<close>; \<open>i\<close> is the ghost index.\<close>

definition run_op :: "nat \<Rightarrow> 'w operation \<Rightarrow> 'w frame \<Rightarrow> 'w frame" where
  "run_op i op s =
     (if truthy (error s) then
        (case op of
           ErrorHandlerOperation f h \<Rightarrow>
             (case h (error s) (world s) of
                (Return v, w') \<Rightarrow>
                  s\<lparr>result := v, error := Plain Null, world := w',
                    trace := trace s @ [HandlerCall i (error s)]\<rparr>
              | (Throw e, w') \<Rightarrow>
                  s\<lparr>error := e, world := w',
                    trace := trace s @ [HandlerCall i (error s)]\<rparr>)
         | Operation f \<Rightarrow> s)
      else
        (case op of
           ErrorHandlerOperation f h \<Rightarrow> s
         | Operation f \<Rightarrow>
             (case f (result s) (world s) of
                (Return v, w') \<Rightarrow>
                  s\<lparr>result := v, world := w', trace := trace s @ [OpCall i (result s)]\<rparr>
              | (Throw e, w') \<Rightarrow>
                  s\<lparr>error := e, world := w', trace := trace s @ [OpCall i (result s)]\<rparr>)))"

fun run_ops :: "nat \<Rightarrow> 'w operation list \<Rightarrow> 'w frame \<Rightarrow> 'w frame" where
  "run_ops i [] s = s"
| "run_ops i (op # ops) s = run_ops (Suc i) ops (run_op i op s)"

definition run_frame :: "'w Gluify \<Rightarrow> 'w \<Rightarrow> 'w frame" where
  "run_frame this w = run_ops 0 (operations this) (run_init this w)"

text \<open>The end of the method: \<^verbatim>\<open>if (error) throw error; return result\<close>.\<close>

definition finish :: "'w frame \<Rightarrow> completion" where
  "finish s = (if truthy (error s) then Throw (error s) else Return (result s))"

definition run :: "'w Gluify \<Rightarrow> 'w effect" where
  "run this w = (let s = run_frame this w in (finish s, world s))"

definition invocations :: "'w Gluify \<Rightarrow> 'w \<Rightarrow> event list" where
  "invocations this w = trace (run_frame this w)"

subsection \<open>\<^verbatim>\<open>runAsync\<close>\<close>

text \<open>
  The asynchronous executor has the same loop with an \<^verbatim>\<open>await\<close> on the initialiser's,
  every operation's and every handler's result. An await on a promise that never settles
  suspends the execution for good.
\<close>

datatype 'w progress = Continue "'w frame" | Suspended "'w frame"

definition runAsync_init :: "'w Gluify \<Rightarrow> 'w \<Rightarrow> 'w progress" where
  "runAsync_init this w =
     (case (if isLazy this then lazyInitializer this else None) of
        Some init \<Rightarrow>
          (case awaitCall (init w) of
             (Some (Return v), w') \<Rightarrow>
               Continue \<lparr>result = v, error = Plain Null, world = w', trace = [SeedCall]\<rparr>
           | (Some (Throw e), w') \<Rightarrow>
               Continue \<lparr>result = Plain Undefined, error = e, world = w', trace = [SeedCall]\<rparr>
           | (None, w') \<Rightarrow>
               Suspended \<lparr>result = Plain Undefined, error = Plain Null, world = w',
                          trace = [SeedCall]\<rparr>)
      | None \<Rightarrow>
          Continue \<lparr>result = initialValue this, error = Plain Null, world = w, trace = []\<rparr>)"

definition runAsync_op :: "nat \<Rightarrow> 'w operation \<Rightarrow> 'w frame \<Rightarrow> 'w progress" where
  "runAsync_op i op s =
     (if truthy (error s) then
        (case op of
           ErrorHandlerOperation f h \<Rightarrow>
             (case awaitCall (h (error s) (world s)) of
                (Some (Return v), w') \<Rightarrow>
                  Continue (s\<lparr>result := v, error := Plain Null, world := w',
                    trace := trace s @ [HandlerCall i (error s)]\<rparr>)
              | (Some (Throw e), w') \<Rightarrow>
                  Continue (s\<lparr>error := e, world := w',
                    trace := trace s @ [HandlerCall i (error s)]\<rparr>)
              | (None, w') \<Rightarrow>
                  Suspended (s\<lparr>world := w',
                    trace := trace s @ [HandlerCall i (error s)]\<rparr>))
         | Operation f \<Rightarrow> Continue s)
      else
        (case op of
           ErrorHandlerOperation f h \<Rightarrow> Continue s
         | Operation f \<Rightarrow>
             (case awaitCall (f (result s) (world s)) of
                (Some (Return v), w') \<Rightarrow>
                  Continue (s\<lparr>result := v, world := w',
                    trace := trace s @ [OpCall i (result s)]\<rparr>)
              | (Some (Throw e), w') \<Rightarrow>
                  Continue (s\<lparr>error := e, world := w',
                    trace := trace s @ [OpCall i (result s)]\<rparr>)
              | (None, w') \<Rightarrow>
                  Suspended (s\<lparr>world := w',
                    trace := trace s @ [OpCall i (result s)]\<rparr>))))"

fun runAsync_ops :: "nat \<Rightarrow> 'w operation list \<Rightarrow> 'w progress \<Rightarrow> 'w progress" where
  "runAsync_ops i [] p = p"
| "runAsync_ops i (op # ops) (Suspended s) = Suspended s"
| "runAsync_ops i (op # ops) (Continue s) = runAsync_ops (Suc i) ops (runAsync_op i op s)"

definition runAsync_progress :: "'w Gluify \<Rightarrow> 'w \<Rightarrow> 'w progress" where
  "runAsync_progress this w = runAsync_ops 0 (operations this) (runAsync_init this w)"

text \<open>\<^verbatim>\<open>runAsync\<close> is an \<^verbatim>\<open>async\<close> method: what it returns is a promise.\<close>

definition runAsync :: "'w Gluify \<Rightarrow> 'w effect" where
  "runAsync this =
     async (\<lambda>w.
       case runAsync_progress this w of
         Suspended s \<Rightarrow> (None, world s)
       | Continue s \<Rightarrow> (Some (finish s), world s))"

section \<open>Notions used in the statements\<close>

text \<open>
  The composition \<open>fn(...f2(f1(seed)))\<close> of transforms that all return: the head of the
  list is the outermost function, and the value is \<open>None\<close> as soon as one of them throws.
\<close>

fun nested :: "((val \<Rightarrow> val list \<Rightarrow> 'w effect) \<times> val list) list \<Rightarrow> val \<Rightarrow> 'w \<Rightarrow> (val \<times> 'w) option" where
  "nested [] seed w = Some (seed, w)"
| "nested ((fn, args) # inner) seed w =
     (case nested inner seed w of
        None \<Rightarrow> None
      | Some (x, w') \<Rightarrow>
          (case fn x args w' of (Return y, w'') \<Rightarrow> Some (y, w'') | (Throw e, w'') \<Rightarrow> None))"

text \<open>\<^verbatim>\<open>this.pipe(f1, ...).pipe(f2, ...)...\<close>, the transforms appended in list order.\<close>

definition pipe_all :: "((val \<Rightarrow> val list \<Rightarrow> 'w effect) \<times> val list) list \<Rightarrow> 'w Gluify \<Rightarrow> 'w Gluify" where
  "pipe_all fs this = foldl (\<lambda>p (fn, args). pipe fn args p) this fs"

text \<open>
  Two frames agree on the variables of the program; the ghost trace may differ.
\<close>

definition same_vars :: "'w frame \<Rightarrow> 'w frame \<Rightarrow> bool" where
  "same_vars s t = (result s = result t \<and> error s = error t \<and> world s = world t)"



text \<open>
  The walk over \<open>ops\<close> from frame \<open>s\<close> never is in the error state: neither at the start
  nor after any step.
\<close>

fun error_free :: "nat \<Rightarrow> 'w operation list \<Rightarrow> 'w frame \<Rightarrow> bool" where
  "error_free i [] s = (\<not> truthy (error s))"
| "error_free i (op # ops) s = (\<not> truthy (error s) \<and> error_free (Suc i) ops (run_op i op s))"

text \<open>The same pipeline with every \<^verbatim>\<open>ErrorHandler\<close> step removed.\<close>

definition without_handlers :: "'w Gluify \<Rightarrow> 'w Gluify" where
  "without_handlers this =
     createNext this (filter (\<lambda>op. \<not> isErrorHandler op) (operations this))"

text \<open>
  \<open>next\<close> is \<open>this\<close> with exactly one step descriptor appended: the same seed
  (initial value, laziness flag, initialiser), and the old step list followed by one
  operation.
\<close>

definition appended :: "'w Gluify \<Rightarrow> 'w Gluify \<Rightarrow> bool" where
  "appended this next =
     (initialValue next = initialValue this \<and> isLazy next = isLazy this \<and>
      lazyInitializer next = lazyInitializer this \<and>
      (\<exists>op. operations next = operations this @ [op]))"

text \<open>The frame of an asynchronous execution, suspended or not.\<close>

fun frame_of :: "'w progress \<Rightarrow> 'w frame" where
  "frame_of (Continue s) = s"
| "frame_of (Suspended s) = s"

text \<open>Calling an operation as a function, \<^verbatim>\<open>op(value)\<close>.\<close>

fun call :: "'w operation \<Rightarrow> val \<Rightarrow> 'w effect" where
  "call (Operation f) = f"
| "call (ErrorHandlerOperation f h) = f"

text \<open>The pipeline after further builder calls that append the operations \<open>further\<close>.\<close>

definition then_steps :: "'w operation list \<Rightarrow> 'w Gluify \<Rightarrow> 'w Gluify" where
  "then_steps further this = createNext this (operations this @ further)"

text \<open>
  \<open>fn\<close> computes the logical function \<open>g\<close>: called on a value that is no promise it
  returns \<open>g\<close> of it, either directly or as a promise fulfilled with it.
\<close>

definition computes :: "(val \<Rightarrow> val list \<Rightarrow> 'w effect) \<Rightarrow> val list \<Rightarrow> (plain \<Rightarrow> plain) \<Rightarrow> bool" where
  "computes fn args g =
     (\<forall>x w. fst (fn (Plain x) args w) = Return (Plain (g x)) \<or>
            fst (fn (Plain x) args w) = Return (Promise (Fulfilled (g x))))"

text \<open>
  A pipeline of transforms, each appended with \<^verbatim>\<open>pipeAsync\<close> (flag set) or with
  \<^verbatim>\<open>pipe\<close>; and the direct composition of logical functions, first to last.
\<close>

definition mixed :: "(bool \<times> (val \<Rightarrow> val list \<Rightarrow> 'w effect) \<times> val list) list \<Rightarrow> 'w Gluify \<Rightarrow> 'w Gluify" where
  "mixed steps this =
     foldl (\<lambda>p (asyncAware, fn, args). if asyncAware then pipeAsync fn args p else pipe fn args p)
       this steps"

definition direct :: "(plain \<Rightarrow> plain) list \<Rightarrow> plain \<Rightarrow> plain" where
  "direct gs x = fold (\<lambda>g y. g y) gs x"


section \<open>Example functions\<close>

text \<open>
  Caller-supplied functions of the examples; the world is a counter of the calls made.
\<close>

definition produce5 :: "val list \<Rightarrow> nat effect" where
  "produce5 args w = (Return (Plain (Num 5)), Suc w)"

definition double :: "val \<Rightarrow> val list \<Rightarrow> nat effect" where
  "double x args w =
     (case x of Plain (Num n) \<Rightarrow> (Return (Plain (Num (n * 2))), Suc w)
      | _ \<Rightarrow> (Return (Plain Undefined), Suc w))"

definition add10 :: "val \<Rightarrow> val list \<Rightarrow> nat effect" where
  "add10 x args w =
     (case x of Plain (Num n) \<Rightarrow> (Return (Plain (Num (n + 10))), Suc w)
      | _ \<Rightarrow> (Return (Plain Undefined), Suc w))"

definition throw_e :: "val list \<Rightarrow> nat effect" where
  "throw_e args w = (Throw (Plain (Err ''e'')), Suc w)"

definition throw_undefined :: "val list \<Rightarrow> nat effect" where
  "throw_undefined args w = (Throw (Plain Undefined), Suc w)"

definition throw_e2 :: "val \<Rightarrow> nat effect" where
  "throw_e2 e w = (Throw (Plain (Err ''e2'')), Suc w)"

definition throw_null :: "val \<Rightarrow> nat effect" where
  "throw_null e w = (Throw (Plain Null), Suc w)"

definition final :: "val \<Rightarrow> nat effect" where
  "final e w = (Return (Plain (Str ''final'')), Suc w)"

definition fallback :: "val \<Rightarrow> nat effect" where
  "fallback e w = (Return (Plain (Str ''fallback'')), Suc w)"

text \<open>A seed that throws an \<^verbatim>\<open>Error\<close>, a handler that throws \<^verbatim>\<open>null\<close>, a handler that returns.\<close>

definition c2_pipeline :: "nat Gluify" where
  "c2_pipeline = catch final (catch throw_null (gluify throw_e []))"


definition boom :: "val \<Rightarrow> val list \<Rightarrow> nat effect" where
  "boom x args w = (Throw (Plain (Err ''boom'')), Suc w)"


definition calm :: "nat Gluify" where
  "calm = pipe add10 [] (catch fallback (pipe double [] (gluify produce5 [])))"

definition c7_pipeline :: "nat Gluify" where
  "c7_pipeline = catch fallback (gluify throw_undefined [])"



definition five :: "nat frame" where
  "five = \<lparr>result = Plain (Num 5), error = Plain Null, world = 1, trace = [SeedCall]\<rparr>"

definition twice :: "plain \<Rightarrow> plain" where
  "twice x = (case x of Num n \<Rightarrow> Num (n * 2) | _ \<Rightarrow> Undefined)"

definition plus10 :: "plain \<Rightarrow> plain" where
  "plus10 x = (case x of Num n \<Rightarrow> Num (n + 10) | _ \<Rightarrow> Undefined)"

definition async5 :: "val list \<Rightarrow> nat effect" where
  "async5 args w = (Return (Promise (Fulfilled (Num 5))), Suc w)"

definition double_later :: "val \<Rightarrow> val list \<Rightarrow> nat effect" where
  "double_later x args w =
     (case x of Plain p \<Rightarrow> (Return (Promise (Fulfilled (twice p))), Suc w)
      | Promise p \<Rightarrow> (Return (Promise Forever), Suc w))"

definition throw_null_step :: "val \<Rightarrow> val list \<Rightarrow> nat effect" where
  "throw_null_step x args w = (Throw (Plain Null), Suc w)"

definition c2_twin :: "nat Gluify" where
  "c2_twin = catch final (catch throw_e2 (gluify throw_e []))"

definition c3_pipeline :: "nat Gluify" where
  "c3_pipeline = pipe throw_null_step [] (gluify produce5 [])"

definition c3_twin :: "nat Gluify" where
  "c3_twin = pipe boom [] (gluify produce5 [])"

definition c7_twin :: "nat Gluify" where
  "c7_twin = catch fallback (gluify throw_e [])"


definition reject_later_step :: "val \<Rightarrow> val list \<Rightarrow> nat effect" where
  "reject_later_step x args w = (Return (Promise (Rejected (Plain (Err ''boom'')))), Suc w)"

definition kind :: "val \<Rightarrow> val list \<Rightarrow> nat effect" where
  "kind x args w =
     (Return (Plain (Str (if instanceofPromise x then ''promise'' else ''plain''))), Suc w)"

text \<open>\<^verbatim>\<open>new Gluify(Promise.resolve(5))\<close>: a concrete seed that is a promise.\<close>

definition promised :: "nat Gluify" where
  "promised =
     \<lparr>initialValue = Promise (Fulfilled (Num 5)), operations = [],
      isLazy = False, lazyInitializer = None\<rparr>"

text \<open>A runtime for the heap of arrays that sorts numbers in ascending order.\<close>

definition unsupported :: "heap effect" where
  "unsupported h = (Throw not_a_function, h)"

definition numeric_order :: sorter where
  "numeric_order compareFn xs =
     (sort_key (\<lambda>v. case v of Plain (Num n) \<Rightarrow> n | _ \<Rightarrow> 0) xs, None)"

definition array_runtime :: "heap natives" where
  "array_runtime =
     \<lparr>invoke = (\<lambda>name receiver args.
         if name = ''reverse'' then heap_reverse receiver else unsupported),
      iterate = (\<lambda>name receiver callback. unsupported),
      Array_reduce = (\<lambda>receiver callback initial. unsupported),
      Array_sort = heap_sort numeric_order,
      static = (\<lambda>name args. unsupported),
      spread_array = heap_spread,
      spread_object = (\<lambda>sources. unsupported),
      has_property = (\<lambda>key obj. unsupported),
      get_property = (\<lambda>obj key. unsupported),
      set_property = (\<lambda>obj key v. unsupported),
      delete_property = (\<lambda>obj key. unsupported)\<rparr>"

definition numbers :: heap where
  "numbers = [ [Plain (Num 3), Plain (Num 1), Plain (Num 2)] ]"


section \<open>Facts about the builder and the synchronous loop\<close>

lemma createNext_sel [simp]:
  "initialValue (createNext p ops) = initialValue p"
  "operations (createNext p ops) = ops"
  "isLazy (createNext p ops) = isLazy p"
  "lazyInitializer (createNext p ops) = lazyInitializer p"
  by (simp_all add: createNext_def)

lemma run_ops_append:
  "run_ops i (xs @ ys) s = run_ops (i + length xs) ys (run_ops i xs s)"
  by (induction xs arbitrary: i s) simp_all

lemma run_op_skip_transform:
  "truthy (error s) \<Longrightarrow> \<not> isErrorHandler op \<Longrightarrow> run_op i op s = s"
  by (cases op) (simp_all add: run_op_def)

lemma run_ops_skip_transforms:
  "truthy (error s) \<Longrightarrow> \<forall>op\<in>set ops. \<not> isErrorHandler op \<Longrightarrow> run_ops i ops s = s"
  by (induction ops arbitrary: i) (simp_all add: run_op_skip_transform)

lemma run_op_handler:
  "truthy (error s) \<Longrightarrow>
   run_op i (ErrorHandlerOperation f h) s =
     (case h (error s) (world s) of
        (Return v, w') \<Rightarrow>
          \<lparr>result = v, error = Plain Null, world = w',
           trace = trace s @ [HandlerCall i (error s)]\<rparr>
      | (Throw e, w') \<Rightarrow>
          \<lparr>result = result s, error = e, world = w',
           trace = trace s @ [HandlerCall i (error s)]\<rparr>)"
  by (simp add: run_op_def split: prod.splits completion.splits)

lemma run_op_same_vars:
  "same_vars s t \<Longrightarrow> same_vars (run_op i op s) (run_op j op t)"
  by (cases op) (auto simp: same_vars_def run_op_def split: prod.splits completion.splits)

lemma run_ops_same_vars:
  "same_vars s t \<Longrightarrow> same_vars (run_ops i ops s) (run_ops j ops t)"
  by (induction ops arbitrary: i j s t) (simp_all add: run_op_same_vars)

lemma run_op_trace:
  "trace (run_op i op s) = trace s \<or>
   (\<exists>x. trace (run_op i op s) = trace s @ [OpCall i x]) \<or>
   (\<exists>x. trace (run_op i op s) = trace s @ [HandlerCall i x])"
  by (cases op) (auto simp: run_op_def split: prod.splits completion.splits)

lemma run_ops_trace:
  "\<exists>later. trace (run_ops i ops s) = trace s @ later \<and>
     (\<forall>ev\<in>set later. \<exists>j x. i \<le> j \<and> (ev = OpCall j x \<or> ev = HandlerCall j x))"
proof (induction ops arbitrary: i s)
  case Nil
  then show ?case by simp
next
  case (Cons op ops)
  from Cons.IH[of "Suc i" "run_op i op s"] obtain later where
    l: "trace (run_ops (Suc i) ops (run_op i op s)) = trace (run_op i op s) @ later"
       "\<forall>ev\<in>set later. \<exists>j x. Suc i \<le> j \<and> (ev = OpCall j x \<or> ev = HandlerCall j x)"
    by blast
  from run_op_trace[of i op s] show ?case
  proof (elim disjE exE)
    assume "trace (run_op i op s) = trace s"
    with l show ?thesis by (intro exI[of _ later]) (auto intro: Suc_leD)
  next
    fix x assume "trace (run_op i op s) = trace s @ [OpCall i x]"
    with l show ?thesis by (intro exI[of _ "OpCall i x # later"]) (auto intro: Suc_leD)
  next
    fix x assume "trace (run_op i op s) = trace s @ [HandlerCall i x]"
    with l show ?thesis by (intro exI[of _ "HandlerCall i x # later"]) (auto intro: Suc_leD)
  qed
qed


lemma run_op_transform:
  "\<not> truthy (error s) \<Longrightarrow>
   run_op i (Operation f) s =
     (case f (result s) (world s) of
        (Return v, w') \<Rightarrow>
          s\<lparr>result := v, world := w', trace := trace s @ [OpCall i (result s)]\<rparr>
      | (Throw e, w') \<Rightarrow>
          s\<lparr>error := e, world := w', trace := trace s @ [OpCall i (result s)]\<rparr>)"
  by (simp add: run_op_def)

lemma truthy_failure_handled:
  assumes ops: "operations this = pre @ Operation f # skipped @ ErrorHandlerOperation g h # rest"
    and s: "s = run_ops 0 pre (run_init this w)"
    and clean: "\<not> truthy (error s)"
    and throws: "f (result s) (world s) = (Throw e, w1)"
    and e: "truthy e"
    and skipped: "\<forall>op\<in>set skipped. \<not> isErrorHandler op"
  shows "run_frame this w =
     run_ops (Suc (Suc (length pre + length skipped))) rest
       (case h e w1 of
          (Return v, w2) \<Rightarrow>
            \<lparr>result = v, error = Plain Null, world = w2,
             trace = trace s @ [OpCall (length pre) (result s),
                                HandlerCall (Suc (length pre + length skipped)) e]\<rparr>
        | (Throw e', w2) \<Rightarrow>
            \<lparr>result = result s, error = e', world = w2,
             trace = trace s @ [OpCall (length pre) (result s),
                                HandlerCall (Suc (length pre + length skipped)) e]\<rparr>)"
proof -
  let ?t = "s\<lparr>error := e, world := w1, trace := trace s @ [OpCall (length pre) (result s)]\<rparr>"
  have step: "run_op (length pre) (Operation f) s = ?t"
    using clean throws by (simp add: run_op_transform)
  have err: "truthy (error ?t)" using e by simp
  have skip: "run_ops (Suc (length pre)) skipped ?t = ?t"
    using err skipped by (rule run_ops_skip_transforms)
  have "run_frame this w =
      run_ops (Suc (Suc (length pre + length skipped))) rest
        (run_op (Suc (length pre + length skipped)) (ErrorHandlerOperation g h) ?t)"
    by (simp add: run_frame_def ops run_ops_append s[symmetric] step skip)
  also have "run_op (Suc (length pre + length skipped)) (ErrorHandlerOperation g h) ?t =
      (case h e w1 of
          (Return v, w2) \<Rightarrow>
            \<lparr>result = v, error = Plain Null, world = w2,
             trace = trace s @ [OpCall (length pre) (result s),
                                HandlerCall (Suc (length pre + length skipped)) e]\<rparr>
        | (Throw e', w2) \<Rightarrow>
            \<lparr>result = result s, error = e', world = w2,
             trace = trace s @ [OpCall (length pre) (result s),
                                HandlerCall (Suc (length pre + length skipped)) e]\<rparr>)"
    using e by (simp add: run_op_handler split: prod.splits completion.splits)
  finally show ?thesis .
qed

lemma truthy_failure_unrecovered:
  assumes ops: "operations this = pre @ Operation f # post"
    and s: "s = run_ops 0 pre (run_init this w)"
    and clean: "\<not> truthy (error s)"
    and throws: "f (result s) (world s) = (Throw e, w1)"
    and e: "truthy e"
    and post: "\<forall>op\<in>set post. \<not> isErrorHandler op"
  shows "run this w = (Throw e, w1)"
proof -
  let ?t = "s\<lparr>error := e, world := w1, trace := trace s @ [OpCall (length pre) (result s)]\<rparr>"
  have step: "run_op (length pre) (Operation f) s = ?t"
    using clean throws by (simp add: run_op_transform)
  have err: "truthy (error ?t)" using e by simp
  have skip: "run_ops (Suc (length pre)) post ?t = ?t"
    using err post by (rule run_ops_skip_transforms)
  have "run_frame this w = ?t"
    by (simp add: run_frame_def ops run_ops_append s[symmetric] step skip)
  then show ?thesis
    using e by (simp add: run_def finish_def)
qed

lemma truthy_seed_failure_handled:
  assumes lazy: "isLazy this" "lazyInitializer this = Some init"
    and throws: "init w = (Throw e, w1)"
    and e: "truthy e"
    and ops: "operations this = skipped @ ErrorHandlerOperation g h # rest"
    and skipped: "\<forall>op\<in>set skipped. \<not> isErrorHandler op"
  shows "run_frame this w =
     run_ops (Suc (length skipped)) rest
       (case h e w1 of
          (Return v, w2) \<Rightarrow>
            \<lparr>result = v, error = Plain Null, world = w2,
             trace = [SeedCall, HandlerCall (length skipped) e]\<rparr>
        | (Throw e', w2) \<Rightarrow>
            \<lparr>result = Plain Undefined, error = e', world = w2,
             trace = [SeedCall, HandlerCall (length skipped) e]\<rparr>)"
proof -
  let ?t = "\<lparr>result = Plain Undefined, error = e, world = w1, trace = [SeedCall]\<rparr>"
  have init: "run_init this w = ?t"
    using lazy throws by (simp add: run_init_def)
  have err: "truthy (error ?t)" using e by simp
  have skip: "run_ops 0 skipped ?t = ?t"
    using err skipped by (rule run_ops_skip_transforms)
  have "run_frame this w =
      run_ops (Suc (length skipped)) rest (run_op (length skipped) (ErrorHandlerOperation g h) ?t)"
    by (simp add: run_frame_def ops run_ops_append init skip)
  also have "run_op (length skipped) (ErrorHandlerOperation g h) ?t =
      (case h e w1 of
          (Return v, w2) \<Rightarrow>
            \<lparr>result = v, error = Plain Null, world = w2,
             trace = [SeedCall, HandlerCall (length skipped) e]\<rparr>
        | (Throw e', w2) \<Rightarrow>
            \<lparr>result = Plain Undefined, error = e', world = w2,
             trace = [SeedCall, HandlerCall (length skipped) e]\<rparr>)"
    using e by (simp add: run_op_handler split: prod.splits completion.splits)
  finally show ?thesis .
qed

section \<open>Facts about the asynchronous loop\<close>

lemma runAsync_op_trace:
  "trace (frame_of (runAsync_op i op s)) = trace s \<or>
   (\<exists>x. trace (frame_of (runAsync_op i op s)) = trace s @ [OpCall i x]) \<or>
   (\<exists>x. trace (frame_of (runAsync_op i op s)) = trace s @ [HandlerCall i x])"
  by (cases op)
     (auto simp: runAsync_op_def split: prod.splits completion.splits option.splits)

lemma runAsync_ops_Suspended [simp]: "runAsync_ops i ops (Suspended s) = Suspended s"
  by (cases ops) simp_all

lemma runAsync_ops_trace:
  "\<exists>later. trace (frame_of (runAsync_ops i ops p)) = trace (frame_of p) @ later \<and>
     (\<forall>ev\<in>set later. \<exists>j x. i \<le> j \<and> (ev = OpCall j x \<or> ev = HandlerCall j x))"
proof (induction ops arbitrary: i p)
  case Nil
  then show ?case by simp
next
  case (Cons op ops)
  show ?case
  proof (cases p)
    case (Suspended s)
    then show ?thesis by simp
  next
    case (Continue s)
    from Cons.IH[of "Suc i" "runAsync_op i op s"] obtain later where
      l: "trace (frame_of (runAsync_ops (Suc i) ops (runAsync_op i op s))) =
            trace (frame_of (runAsync_op i op s)) @ later"
         "\<forall>ev\<in>set later. \<exists>j x. Suc i \<le> j \<and> (ev = OpCall j x \<or> ev = HandlerCall j x)"
      by blast
    from runAsync_op_trace[of i op s] show ?thesis
    proof (elim disjE exE)
      assume "trace (frame_of (runAsync_op i op s)) = trace s"
      with l show ?thesis
        by (intro exI[of _ later]) (auto simp: Continue intro: Suc_leD)
    next
      fix x assume "trace (frame_of (runAsync_op i op s)) = trace s @ [OpCall i x]"
      with l show ?thesis
        by (intro exI[of _ "OpCall i x # later"]) (auto simp: Continue intro: Suc_leD)
    next
      fix x assume "trace (frame_of (runAsync_op i op s)) = trace s @ [HandlerCall i x]"
      with l show ?thesis
        by (intro exI[of _ "HandlerCall i x # later"]) (auto simp: Continue intro: Suc_leD)
    qed
  qed
qed

lemma await_resolve [simp]: "await (resolve r) = await r"
  by (cases r) simp_all

lemma await_not_promise: "await v = Some (Return r) \<Longrightarrow> \<not> instanceofPromise r"
  by (cases v rule: await.cases) auto

lemma awaitCall_not_promise: "awaitCall c = (Some (Return r), w') \<Longrightarrow> \<not> instanceofPromise r"
  by (cases c rule: awaitCall.cases) (auto dest: await_not_promise)

lemma awaitCall_pipeAsync:
  "\<not> instanceofPromise value \<Longrightarrow>
   awaitCall (pipeAsync_operation fn args value w) = awaitCall (fn value args w)"
  by (cases "fn value args w"; cases "fst (fn value args w)")
     (auto simp: pipeAsync_operation_def async_def)

lemma pipeAsync_step:
  "\<not> instanceofPromise (result s) \<Longrightarrow>
   runAsync_op i (Operation (pipeAsync_operation fn args)) s =
   runAsync_op i (Operation (\<lambda>value. fn value args)) s"
  by (simp add: runAsync_op_def awaitCall_pipeAsync)

lemma runAsync_op_no_promise:
  "\<not> instanceofPromise (result s) \<Longrightarrow>
   \<not> instanceofPromise (result (frame_of (runAsync_op i op s)))"
  by (cases op)
     (auto simp: runAsync_op_def split: prod.splits option.splits completion.splits
           dest: awaitCall_not_promise)

lemma runAsync_init_no_promise:
  "(isLazy this \<and> lazyInitializer this \<noteq> None) \<or> \<not> instanceofPromise (initialValue this) \<Longrightarrow>
   \<not> instanceofPromise (result (frame_of (runAsync_init this w)))"
  by (auto simp: runAsync_init_def
           split: prod.splits option.splits completion.splits dest: awaitCall_not_promise)

lemma runAsync_ops_no_promise:
  "\<not> instanceofPromise (result (frame_of p)) \<Longrightarrow>
   \<not> instanceofPromise (result (frame_of (runAsync_ops i ops p)))"
proof (induction ops arbitrary: i p)
  case Nil
  then show ?case by simp
next
  case (Cons op ops)
  then show ?case
    by (cases p) (simp_all add: runAsync_op_no_promise)
qed

lemma runAsync_ops_append:
  "runAsync_ops i (xs @ ys) p = runAsync_ops (i + length xs) ys (runAsync_ops i xs p)"
proof (induction xs arbitrary: i p)
  case Nil
  then show ?case by simp
next
  case (Cons x xs)
  then show ?case by (cases p) simp_all
qed

lemma pipeAsync_steps:
  assumes "\<not> instanceofPromise (result (frame_of p))"
  shows "runAsync_ops i (Operation (pipeAsync_operation fn args) # further) p =
         runAsync_ops i (Operation (\<lambda>value. fn value args) # further) p"
  using assms by (cases p) (simp_all add: pipeAsync_step)


section \<open>Order preservation\<close>

lemma pipe_all_sel:
  "operations (pipe_all fs p) =
     operations p @ map (\<lambda>(fn, args). Operation (\<lambda>value. fn value args)) fs"
  "isLazy (pipe_all fs p) = isLazy p"
  "lazyInitializer (pipe_all fs p) = lazyInitializer p"
  "initialValue (pipe_all fs p) = initialValue p"
  by (induction fs rule: rev_induct) (auto simp: pipe_all_def pipe_def split: prod.splits)

lemma run_ops_pipes:
  "nested (rev fs) seed w0 = Some (r, w1) \<Longrightarrow> \<not> truthy (error s) \<Longrightarrow>
   result s = seed \<Longrightarrow> world s = w0 \<Longrightarrow>
   result (run_ops i (map (\<lambda>(fn, args). Operation (\<lambda>value. fn value args)) fs) s) = r \<and>
   world (run_ops i (map (\<lambda>(fn, args). Operation (\<lambda>value. fn value args)) fs) s) = w1 \<and>
   error (run_ops i (map (\<lambda>(fn, args). Operation (\<lambda>value. fn value args)) fs) s) = error s"
proof (induction fs arbitrary: r w1 rule: rev_induct)
  case Nil
  then show ?case by simp
next
  case (snoc f fs)
  obtain fn args where f: "f = (fn, args)" by (cases f)
  from snoc.prems(1) obtain x w' where
    inner: "nested (rev fs) seed w0 = Some (x, w')" and last: "fn x args w' = (Return r, w1)"
    by (auto simp: f split: option.splits prod.splits completion.splits)
  from snoc.IH[OF inner snoc.prems(2-4)] last snoc.prems(2) show ?case
    by (simp add: f run_ops_append run_op_def)
qed

text \<open>
  C1. A pipeline whose producer returns \<open>seed\<close> and whose transforms, appended with
  \<^verbatim>\<open>pipe\<close> in the order \<open>f1, ..., fn\<close>, all return: \<^verbatim>\<open>run()\<close> returns
  \<open>fn(...f2(f1(seed)))\<close>, each function having seen the world its predecessor left.
\<close>

theorem order_preservation:
  assumes "producer pargs w = (Return seed, w0)"
    and "nested (rev fs) seed w0 = Some (r, w1)"
  shows "run (pipe_all fs (gluify producer pargs)) w = (Return r, w1)"
proof -
  let ?s = "run_init (pipe_all fs (gluify producer pargs)) w"
  have s: "?s = \<lparr>result = seed, error = Plain Null, world = w0, trace = [SeedCall]\<rparr>"
    using assms(1) by (simp add: run_init_def pipe_all_sel gluify_def)
  have ops: "operations (pipe_all fs (gluify producer pargs)) =
      map (\<lambda>(fn, args). Operation (\<lambda>value. fn value args)) fs"
    by (simp add: pipe_all_sel gluify_def)
  from run_ops_pipes[OF assms(2), of ?s 0] show ?thesis
    by (simp add: run_def run_frame_def ops s finish_def Let_def)
qed

text \<open>\<^verbatim>\<open>gluify(() => 5).pipe(x => x*2).pipe(x => x+10).run()\<close> is \<open>20\<close>, after three calls.\<close>

theorem order_preservation_witness:
  "produce5 [] 0 = (Return (Plain (Num 5)), 1) \<and>
   nested (rev [(double, []), (add10, [])]) (Plain (Num 5)) 1 = Some (Plain (Num 20), 3) \<and>
   run (pipe add10 [] (pipe double [] (gluify produce5 []))) 0 = (Return (Plain (Num 20)), 3)"
proof -
  have h1: "produce5 [] 0 = (Return (Plain (Num 5)), 1)"
    by (simp add: produce5_def)
  have h2: "nested (rev [(double, []), (add10, [])]) (Plain (Num 5)) 1 = Some (Plain (Num 20), 3)"
    by (simp add: double_def add10_def)
  from order_preservation[where producer = produce5 and pargs = "[]" and w = 0, OF h1 h2] h1 h2
  show ?thesis
    by (simp add: pipe_all_def)
qed

section \<open>The lazy seed\<close>

text \<open>
  In every execution of a pipeline with a lazy producer, synchronous or asynchronous,
  the producer is called exactly once, and before anything else.
\<close>

lemma seed_once_sync:
  assumes "isLazy this" and "lazyInitializer this = Some init"
  shows "\<exists>rest. invocations this w = SeedCall # rest \<and> SeedCall \<notin> set rest"
proof -
  have init: "trace (run_init this w) = [SeedCall]"
    using assms by (simp add: run_init_def split: prod.splits completion.splits)
  from run_ops_trace[of 0 "operations this" "run_init this w"] obtain later where
    "trace (run_ops 0 (operations this) (run_init this w)) = trace (run_init this w) @ later"
    "\<forall>ev\<in>set later. \<exists>j x. 0 \<le> j \<and> (ev = OpCall j x \<or> ev = HandlerCall j x)"
    by blast
  then have "invocations this w = SeedCall # later \<and> SeedCall \<notin> set later"
    by (auto simp: invocations_def run_frame_def init)
  then show ?thesis by blast
qed

lemma seed_once_async:
  assumes "isLazy this" and "lazyInitializer this = Some init"
  shows "\<exists>rest. trace (frame_of (runAsync_progress this w)) = SeedCall # rest \<and>
           SeedCall \<notin> set rest"
proof -
  have init: "trace (frame_of (runAsync_init this w)) = [SeedCall]"
    using assms
    by (simp add: runAsync_init_def split: prod.splits completion.splits option.splits)
  from runAsync_ops_trace[of 0 "operations this" "runAsync_init this w"] obtain later where
    "trace (frame_of (runAsync_ops 0 (operations this) (runAsync_init this w))) =
       trace (frame_of (runAsync_init this w)) @ later"
    "\<forall>ev\<in>set later. \<exists>j x. 0 \<le> j \<and> (ev = OpCall j x \<or> ev = HandlerCall j x)"
    by blast
  then have "trace (frame_of (runAsync_progress this w)) = SeedCall # later \<and>
      SeedCall \<notin> set later"
    by (auto simp: runAsync_progress_def init)
  then show ?thesis by blast
qed

section \<open>Failures that the truthiness test loses\<close>

text \<open>
  Whether a failure is pending is decided by \<^verbatim>\<open>if (error)\<close>, the truthiness of what
  was thrown. For a truthy value, as every \<^verbatim>\<open>Error\<close> object is, the walk does what the
  lemmas \<open>truthy_failure_handled\<close>, \<open>truthy_failure_unrecovered\<close> and
  \<open>truthy_seed_failure_handled\<close> say. A thrown \<^verbatim>\<open>null\<close>, \<^verbatim>\<open>undefined\<close>, \<^verbatim>\<open>0\<close>,
  \<^verbatim>\<open>''\<close> or \<^verbatim>\<open>false\<close> is caught and stored like any other, and then taken for no
  failure at all. The three theorems of this section run the code on such an input, and
  on the same pipeline with an \<^verbatim>\<open>Error\<close> thrown instead.
\<close>

text \<open>
  C2. After a failing step only the first handler behind it is called with the failure,
  and if that handler fails, its failure goes to the next handler in step order: a seed
  that throws, then \<^verbatim>\<open>catch(h1)\<close> with \<open>h1\<close> throwing, then \<^verbatim>\<open>catch(h2)\<close> with \<open>h2\<close>
  returning, yields the value of \<open>h2\<close>, both handlers called. The code does so when
  \<open>h1\<close> throws \<^verbatim>\<open>Error('e2')\<close>. When \<open>h1\<close> throws \<^verbatim>\<open>null\<close>, the second handler is never
  called and \<^verbatim>\<open>run()\<close> returns \<^verbatim>\<open>undefined\<close>, the value \<open>result\<close> has held from its
  declaration.
\<close>

theorem swallowed_handler_failure:
  "run c2_pipeline 0 = (Return (Plain Undefined), 2) \<and>
   invocations c2_pipeline 0 = [SeedCall, HandlerCall 0 (Plain (Err ''e''))] \<and>
   run c2_twin 0 = (Return (Plain (Str ''final'')), 3) \<and>
   invocations c2_twin 0 =
     [SeedCall, HandlerCall 0 (Plain (Err ''e'')), HandlerCall 1 (Plain (Err ''e2''))]"
  by (simp add: c2_pipeline_def c2_twin_def run_def invocations_def run_frame_def
      run_init_def run_op_def finish_def catch_def gluify_def throw_e_def throw_null_def
      throw_e2_def final_def)

text \<open>
  C3. A failure that no handler recovers is raised by \<^verbatim>\<open>run()\<close> unchanged, and no value
  is returned. The code does so for \<^verbatim>\<open>gluify(() => 5).pipe(boom)\<close>, whose transform
  throws \<^verbatim>\<open>Error('boom')\<close>. When the transform throws \<^verbatim>\<open>null\<close>, \<^verbatim>\<open>run()\<close> raises
  nothing and returns \<open>5\<close>, the value before the failing step.
\<close>

theorem unrecovered_falsy_failure:
  "run c3_pipeline 0 = (Return (Plain (Num 5)), 2) \<and>
   invocations c3_pipeline 0 = [SeedCall, OpCall 0 (Plain (Num 5))] \<and>
   run c3_twin 0 = (Throw (Plain (Err ''boom'')), 2) \<and>
   invocations c3_twin 0 = [SeedCall, OpCall 0 (Plain (Num 5))]"
  by (simp add: c3_pipeline_def c3_twin_def run_def invocations_def run_frame_def
      run_init_def run_op_def finish_def pipe_def gluify_def produce5_def
      throw_null_step_def boom_def)

text \<open>
  C7. A lazy producer is called once, at the start of the execution; if it raises, the
  execution is in the error state and a handler behind it recovers:
  \<^verbatim>\<open>gluify(() => { throw Error('e') }).catch(() => 'fallback')\<close> yields \<open>'fallback'\<close>,
  under \<^verbatim>\<open>run\<close> and \<^verbatim>\<open>runAsync\<close>. When the producer throws \<^verbatim>\<open>undefined\<close>, it
  is called once all the same, but the handler is never called and both executors yield
  \<^verbatim>\<open>undefined\<close>.
\<close>

theorem swallowed_seed_failure:
  "run c7_pipeline 0 = (Return (Plain Undefined), 1) \<and>
   invocations c7_pipeline 0 = [SeedCall] \<and>
   runAsync c7_pipeline 0 = (Return (Promise (Fulfilled Undefined)), 1) \<and>
   run c7_twin 0 = (Return (Plain (Str ''fallback'')), 2) \<and>
   invocations c7_twin 0 = [SeedCall, HandlerCall 0 (Plain (Err ''e''))] \<and>
   runAsync c7_twin 0 = (Return (Promise (Fulfilled (Str ''fallback''))), 2)"
  by (simp add: c7_pipeline_def c7_twin_def run_def invocations_def run_frame_def
      run_init_def run_op_def finish_def runAsync_def async_def runAsync_progress_def
      runAsync_init_def runAsync_op_def catch_def gluify_def throw_undefined_def throw_e_def
      fallback_def)

section \<open>Handler reachability\<close>



section \<open>Handlers are inert without an error\<close>

lemma error_free_no_handler_call:
  "error_free i ops s \<Longrightarrow> \<forall>j x. HandlerCall j x \<notin> set (trace s) \<Longrightarrow>
   \<forall>j x. HandlerCall j x \<notin> set (trace (run_ops i ops s))"
proof (induction ops arbitrary: i s)
  case Nil
  then show ?case by simp
next
  case (Cons op ops)
  from Cons.prems have clean: "\<not> truthy (error s)" and rest: "error_free (Suc i) ops (run_op i op s)"
    by simp_all
  from clean Cons.prems(2) have "\<forall>j x. HandlerCall j x \<notin> set (trace (run_op i op s))"
    by (cases op) (auto simp: run_op_def split: prod.splits completion.splits)
  from Cons.IH[OF rest this] show ?case by simp
qed

lemma error_free_filter:
  "error_free i ops s \<Longrightarrow> same_vars s t \<Longrightarrow>
   same_vars (run_ops i ops s) (run_ops j (filter (\<lambda>op. \<not> isErrorHandler op) ops) t)"
proof (induction ops arbitrary: i j s t)
  case Nil
  then show ?case by simp
next
  case (Cons op ops)
  from Cons.prems have clean: "\<not> truthy (error s)" and rest: "error_free (Suc i) ops (run_op i op s)"
    by simp_all
  show ?case
  proof (cases op)
    case (Operation f)
    from Cons.IH[where j = "Suc j", OF rest run_op_same_vars[OF Cons.prems(2), of i op j] ]
    show ?thesis
      by (simp add: Operation)
  next
    case (ErrorHandlerOperation f h)
    from clean have skip: "run_op i (ErrorHandlerOperation f h) s = s" by (simp add: run_op_def)
    from Cons.IH[where j = j and t = t, OF rest] Cons.prems(2) show ?thesis
      by (simp add: ErrorHandlerOperation skip)
  qed
qed

text \<open>
  C5. When the execution never is in the error state, no handler is called, and
  \<^verbatim>\<open>run()\<close> returns the same value and leaves the same world as on the pipeline with every
  \<^verbatim>\<open>ErrorHandler\<close> step removed.
\<close>

theorem handlers_inert_without_error:
  assumes "error_free 0 (operations this) (run_init this w)"
  shows "(\<forall>j x. HandlerCall j x \<notin> set (invocations this w)) \<and>
         run this w = run (without_handlers this) w"
proof
  have "\<forall>j x. HandlerCall j x \<notin> set (trace (run_init this w))"
    by (auto simp: run_init_def split: option.splits prod.splits completion.splits)
  from error_free_no_handler_call[OF assms this]
  show "\<forall>j x. HandlerCall j x \<notin> set (invocations this w)"
    by (simp add: invocations_def run_frame_def)
next
  have init: "run_init (without_handlers this) w = run_init this w"
    by (simp add: run_init_def without_handlers_def split: option.splits)
  have "same_vars (run_frame this w) (run_frame (without_handlers this) w)"
    unfolding run_frame_def init
    using error_free_filter[OF assms, of "run_init this w" 0]
    by (simp add: without_handlers_def same_vars_def)
  then show "run this w = run (without_handlers this) w"
    by (simp add: run_def finish_def same_vars_def Let_def)
qed

text \<open>\<^verbatim>\<open>gluify(() => 5).pipe(double).catch(fallback).pipe(add10)\<close> runs to \<open>20\<close>.\<close>

theorem handlers_inert_without_error_witness:
  "error_free 0 (operations calm) (run_init calm 0) \<and>
   (\<forall>j x. HandlerCall j x \<notin> set (invocations calm 0)) \<and>
   run calm 0 = run (without_handlers calm) 0 \<and>
   run calm 0 = (Return (Plain (Num 20)), 3) \<and>
   operations (without_handlers calm) =
     [Operation (\<lambda>value. double value []), Operation (\<lambda>value. add10 value [])]"
proof -
  have ops: "operations calm =
      [Operation (\<lambda>value. double value []),
       ErrorHandlerOperation (\<lambda>value w. (Return value, w)) fallback,
       Operation (\<lambda>value. add10 value [])]"
    by (simp add: calm_def catch_def pipe_def gluify_def)
  have init: "run_init calm 0 =
      \<lparr>result = Plain (Num 5), error = Plain Null, world = 1, trace = [SeedCall]\<rparr>"
    by (simp add: calm_def catch_def pipe_def gluify_def run_init_def produce5_def)
  have ef: "error_free 0 (operations calm) (run_init calm 0)"
    by (simp add: ops init run_op_def double_def add10_def)
  have r: "run calm 0 = (Return (Plain (Num 20)), 3)"
    by (simp add: run_def run_frame_def ops init run_op_def double_def add10_def finish_def)
  from handlers_inert_without_error[OF ef] ef r show ?thesis
    by (simp add: without_handlers_def ops)
qed

section \<open>Builders\<close>

lemma appendedI: "next = createNext this (operations this @ [op]) \<Longrightarrow> appended this next"
  by (simp add: appended_def)

lemma core_builders_append:
  "appended this (pipe fn args this)"
  "appended this (pipeAsync fn args this)"
  "appended this (tap tapFn this)"
  "appended this (catch handler this)"
  "appended this (recover fallbackValue this)"
  "appended this (when' predicate whenFn this)"
  by (rule appendedI, simp add: pipe_def pipeAsync_def tap_def catch_def recover_def when'_def)+

lemma array_builders_append:
  "appended this (map' N mapFn this)"
  "appended this (filter' N filterFn this)"
  "appended this (reduce N reduceFn initialValue' this)"
  "appended this (find' N findFn this)"
  "appended this (some N someFn this)"
  "appended this (every N everyFn this)"
  "appended this (take' N n this)"
  "appended this (skip N k this)"
  "appended this (sort' N compareFn this)"
  "appended this (reverse N this)"
  "appended this (flat N this)"
  "appended this (unique N this)"
  by (rule appendedI, simp add: map'_def filter'_def reduce_def find'_def some_def every_def
      take'_def skip_def sort'_def reverse_def flat_def unique_def)+

lemma object_builders_append:
  "appended this (pick N pickKeys this)"
  "appended this (omit N omitKeys this)"
  "appended this (keys N this)"
  "appended this (values' N this)"
  "appended this (entries N this)"
  "appended this (merge N other this)"
  by (rule appendedI, simp add: pick_def omit_def keys_def values'_def entries_def merge_def)+

lemma string_builders_append:
  "appended this (trim N this)"
  "appended this (split N separator this)"
  "appended this (join N glue this)"
  "appended this (replace N searchValue replaceValue this)"
  "appended this (toUpperCase N this)"
  "appended this (toLowerCase N this)"
  "appended this (defaultTo defaultValue this)"
  "appended this (isNil this)"
  "appended this (clone N this)"
  by (rule appendedI, simp add: trim_def split_def join_def replace_def toUpperCase_def
      toLowerCase_def defaultTo_def isNil_def clone_def)+

text \<open>
  C6. \<^verbatim>\<open>gluify\<close> stores the producer with its arguments as the lazy initialiser and no
  step; every builder method (\<^verbatim>\<open>pipe\<close>, \<^verbatim>\<open>pipeAsync\<close>, \<^verbatim>\<open>tap\<close>, \<^verbatim>\<open>catch\<close>,
  \<^verbatim>\<open>recover\<close>, \<^verbatim>\<open>when\<close> and each convenience method) yields a pipeline with the seed of
  the receiver and the receiver's step list followed by exactly one new descriptor.
  Builders are functions of the pipeline value alone: they take no world and leave no
  trace, and the receiver, being a value, is what it was; calls of the producer and of the
  step functions arise in \<open>run_frame\<close> and \<open>runAsync_progress\<close> only.
\<close>

theorem builders_are_pure:
  "(initialValue (gluify producer pargs) = Plain Undefined \<and>
    operations (gluify producer pargs) = [] \<and>
    isLazy (gluify producer pargs) \<and>
    lazyInitializer (gluify producer pargs) = Some (producer pargs)) \<and>
   (appended this (pipe fn args this) \<and>
    appended this (pipeAsync fn args this) \<and>
    appended this (tap tapFn this) \<and>
    appended this (catch handler this) \<and>
    appended this (recover fallbackValue this) \<and>
    appended this (when' predicate whenFn this)) \<and>
   (appended this (map' N mapFn this) \<and>
    appended this (filter' N filterFn this) \<and>
    appended this (reduce N reduceFn initialValue' this) \<and>
    appended this (find' N findFn this) \<and>
    appended this (some N someFn this) \<and>
    appended this (every N everyFn this) \<and>
    appended this (take' N n this) \<and>
    appended this (skip N k this) \<and>
    appended this (sort' N compareFn this) \<and>
    appended this (reverse N this) \<and>
    appended this (flat N this) \<and>
    appended this (unique N this)) \<and>
   (appended this (pick N pickKeys this) \<and>
    appended this (omit N omitKeys this) \<and>
    appended this (keys N this) \<and>
    appended this (values' N this) \<and>
    appended this (entries N this) \<and>
    appended this (merge N other this)) \<and>
   (appended this (trim N this) \<and>
    appended this (split N separator this) \<and>
    appended this (join N glue this) \<and>
    appended this (replace N searchValue replaceValue this) \<and>
    appended this (toUpperCase N this) \<and>
    appended this (toLowerCase N this) \<and>
    appended this (defaultTo defaultValue this) \<and>
    appended this (isNil this) \<and>
    appended this (clone N this))"
proof (intro conjI)
  show "initialValue (gluify producer pargs) = Plain Undefined"
    "operations (gluify producer pargs) = []"
    "isLazy (gluify producer pargs)"
    "lazyInitializer (gluify producer pargs) = Some (producer pargs)"
    by (simp_all add: gluify_def)
qed (rule core_builders_append array_builders_append object_builders_append
      string_builders_append)+

section \<open>Tap\<close>




section \<open>Asynchronous execution: \<^verbatim>\<open>pipeAsync\<close> and \<^verbatim>\<open>pipe\<close>\<close>

lemma then_steps_sel:
  "operations (then_steps further this) = operations this @ further"
  "runAsync_init (then_steps further this) w = runAsync_init this w"
  by (simp_all add: then_steps_def runAsync_init_def split: option.splits)

lemma builder_async_init:
  "runAsync_init (pipe fn args this) w = runAsync_init this w"
  "runAsync_init (pipeAsync fn args this) w = runAsync_init this w"
  by (simp_all add: pipe_def pipeAsync_def runAsync_init_def split: option.splits)

lemma runAsync_init_cong:
  "initialValue a = initialValue b \<Longrightarrow> isLazy a = isLazy b \<Longrightarrow>
   lazyInitializer a = lazyInitializer b \<Longrightarrow> runAsync_init a w = runAsync_init b w"
  by (simp add: runAsync_init_def split: option.splits)

lemma mixed_snoc:
  "mixed (steps @ [(asyncAware, fn, args)]) this =
     (if asyncAware then pipeAsync fn args (mixed steps this) else pipe fn args (mixed steps this))"
  by (simp add: mixed_def)

lemma mixed_fields:
  "initialValue (mixed steps this) = initialValue this \<and>
   isLazy (mixed steps this) = isLazy this \<and>
   lazyInitializer (mixed steps this) = lazyInitializer this \<and>
   operations (mixed steps this) =
     operations this @
     map (\<lambda>(asyncAware, fn, args).
            Operation (if asyncAware then pipeAsync_operation fn args else (\<lambda>value. fn value args)))
         steps"
proof (induction steps rule: rev_induct)
  case Nil
  then show ?case by (simp add: mixed_def)
next
  case (snoc st steps)
  obtain asyncAware fn args where st: "st = (asyncAware, fn, args)" by (cases st)
  from snoc show ?case
    unfolding st mixed_snoc by (simp add: pipe_def pipeAsync_def)
qed

lemma mixed_sel:
  "operations (mixed steps this) =
     operations this @
     map (\<lambda>(asyncAware, fn, args).
            Operation (if asyncAware then pipeAsync_operation fn args else (\<lambda>value. fn value args)))
         steps"
  "runAsync_init (mixed steps this) w = runAsync_init this w"
proof -
  show "operations (mixed steps this) =
     operations this @
     map (\<lambda>(asyncAware, fn, args).
            Operation (if asyncAware then pipeAsync_operation fn args else (\<lambda>value. fn value args)))
         steps"
    using mixed_fields[of steps this] by simp
  show "runAsync_init (mixed steps this) w = runAsync_init this w"
    using mixed_fields[of steps this] by (intro runAsync_init_cong) simp_all
qed

lemma step_computes:
  assumes "computes fn args g" and "\<not> truthy (error s)" and "result s = Plain x"
  shows "\<exists>s'. runAsync_op i
           (Operation (if asyncAware then pipeAsync_operation fn args else (\<lambda>value. fn value args))) s =
           Continue s' \<and> result s' = Plain (g x) \<and> error s' = error s"
proof -
  have same: "runAsync_op i
      (Operation (if asyncAware then pipeAsync_operation fn args else (\<lambda>value. fn value args))) s =
      runAsync_op i (Operation (\<lambda>value. fn value args)) s"
    using assms(3) by (simp add: pipeAsync_step)
  obtain c w' where call: "fn (Plain x) args (world s) = (c, w')"
    by (cases "fn (Plain x) args (world s)")
  from assms(1) call have "c = Return (Plain (g x)) \<or> c = Return (Promise (Fulfilled (g x)))"
    unfolding computes_def by (metis fst_conv)
  then have "awaitCall (fn (Plain x) args (world s)) = (Some (Return (Plain (g x))), w')"
    by (auto simp: call)
  with assms(2,3) show ?thesis
    unfolding same by (simp add: runAsync_op_def)
qed

lemma steps_compute:
  "list_all2 (\<lambda>(asyncAware, fn, args) g. computes fn args g) steps gs \<Longrightarrow>
   \<not> truthy (error s) \<Longrightarrow> result s = Plain x \<Longrightarrow>
   \<exists>s'. runAsync_ops i
          (map (\<lambda>(asyncAware, fn, args).
                  Operation (if asyncAware then pipeAsync_operation fn args
                             else (\<lambda>value. fn value args))) steps)
          (Continue s) = Continue s' \<and>
        result s' = Plain (direct gs x) \<and> \<not> truthy (error s')"
proof (induction steps gs arbitrary: i s x rule: list_all2_induct)
  case Nil
  then show ?case by (simp add: direct_def)
next
  case (Cons st steps g gs)
  obtain asyncAware fn args where st: "st = (asyncAware, fn, args)" by (cases st)
  from Cons.hyps(1) have c: "computes fn args g" by (simp add: st)
  from step_computes[OF c Cons.prems, of i asyncAware] obtain s1 where
    s1: "runAsync_op i
           (Operation (if asyncAware then pipeAsync_operation fn args else (\<lambda>value. fn value args))) s =
         Continue s1" "result s1 = Plain (g x)" "error s1 = error s"
    by blast
  from s1(3) Cons.prems(1) have clean: "\<not> truthy (error s1)" by simp
  from Cons.IH[OF clean s1(2), of "Suc i"] s1(1) show ?case
    by (simp add: st direct_def)
qed

text \<open>
  On a seed that the executor awaits, or that is no promise, the two variants give the
  same execution, and a mixed pipeline computes the direct composition.
\<close>

lemma pipeAsync_redundant:
  "((isLazy this \<and> lazyInitializer this \<noteq> None) \<or>
    \<not> instanceofPromise (initialValue this) \<longrightarrow>
      runAsync_progress (then_steps further (pipeAsync fn args this)) w =
        runAsync_progress (then_steps further (pipe fn args this)) w \<and>
      runAsync (then_steps further (pipeAsync fn args this)) w =
        runAsync (then_steps further (pipe fn args this)) w) \<and>
   ((fst (producer pargs w) = Return (Plain x0) \<or>
     fst (producer pargs w) = Return (Promise (Fulfilled x0))) \<and>
    list_all2 (\<lambda>(asyncAware, fn, args) g. computes fn args g) steps gs \<longrightarrow>
      fst (runAsync (mixed steps (gluify producer pargs)) w) =
        Return (Promise (Fulfilled (direct gs x0))))"
proof (intro conjI impI)
  assume lazy: "(isLazy this \<and> lazyInitializer this \<noteq> None) \<or>
    \<not> instanceofPromise (initialValue this)"
  let ?p = "runAsync_ops 0 (operations this) (runAsync_init this w)"
  have "\<not> instanceofPromise (result (frame_of (runAsync_init this w)))"
    using lazy by (simp add: runAsync_init_no_promise)
  then have np: "\<not> instanceofPromise (result (frame_of ?p))"
    by (rule runAsync_ops_no_promise)
  show eq: "runAsync_progress (then_steps further (pipeAsync fn args this)) w =
        runAsync_progress (then_steps further (pipe fn args this)) w"
    unfolding runAsync_progress_def then_steps_sel builder_async_init
    by (simp add: pipeAsync_def pipe_def runAsync_ops_append pipeAsync_steps[OF np])
  show "runAsync (then_steps further (pipeAsync fn args this)) w =
        runAsync (then_steps further (pipe fn args this)) w"
    by (simp add: runAsync_def async_def eq)
next
  assume a: "(fst (producer pargs w) = Return (Plain x0) \<or>
     fst (producer pargs w) = Return (Promise (Fulfilled x0))) \<and>
    list_all2 (\<lambda>(asyncAware, fn, args) g. computes fn args g) steps gs"
  obtain c w0 where call: "producer pargs w = (c, w0)" by (cases "producer pargs w")
  with a have "c = Return (Plain x0) \<or> c = Return (Promise (Fulfilled x0))" by simp
  then have init: "runAsync_init (gluify producer pargs) w =
      Continue \<lparr>result = Plain x0, error = Plain Null, world = w0, trace = [SeedCall]\<rparr>"
    by (auto simp: runAsync_init_def gluify_def call)
  from a have steps: "list_all2 (\<lambda>(asyncAware, fn, args) g. computes fn args g) steps gs" by simp
  from steps_compute[OF steps, of "\<lparr>result = Plain x0, error = Plain Null, world = w0, trace = [SeedCall]\<rparr>" x0 0]
  obtain s' where run: "runAsync_ops 0
          (map (\<lambda>(asyncAware, fn, args).
                  Operation (if asyncAware then pipeAsync_operation fn args
                             else (\<lambda>value. fn value args))) steps)
          (Continue \<lparr>result = Plain x0, error = Plain Null, world = w0, trace = [SeedCall]\<rparr>) =
        Continue s'"
      and s': "result s' = Plain (direct gs x0)" "\<not> truthy (error s')"
    by auto
  have ops: "operations (mixed steps (gluify producer pargs)) =
      map (\<lambda>(asyncAware, fn, args).
             Operation (if asyncAware then pipeAsync_operation fn args
                        else (\<lambda>value. fn value args))) steps"
    by (simp add: mixed_sel gluify_def)
  have "runAsync_progress (mixed steps (gluify producer pargs)) w = Continue s'"
    unfolding runAsync_progress_def ops mixed_sel(2) init by (rule run)
  with s' show "fst (runAsync (mixed steps (gluify producer pargs)) w) =
        Return (Promise (Fulfilled (direct gs x0)))"
    by (simp add: runAsync_def async_def finish_def)
qed

lemma async_step_outcome:
  assumes "\<not> truthy (error s)" and "\<not> instanceofPromise (result s)"
    and "awaitCall (fn (result s) args (world s)) = (Some c, w')"
  shows "runAsync_op i (last (operations (pipeAsync fn args this))) s =
           Continue (case c of
              Return v \<Rightarrow> s\<lparr>result := v, world := w', trace := trace s @ [OpCall i (result s)]\<rparr>
            | Throw e \<Rightarrow> s\<lparr>error := e, world := w', trace := trace s @ [OpCall i (result s)]\<rparr>)"
    and "runAsync_op i (last (operations (pipe fn args this))) s =
           Continue (case c of
              Return v \<Rightarrow> s\<lparr>result := v, world := w', trace := trace s @ [OpCall i (result s)]\<rparr>
            | Throw e \<Rightarrow> s\<lparr>error := e, world := w', trace := trace s @ [OpCall i (result s)]\<rparr>)"
proof -
  show p: "runAsync_op i (last (operations (pipe fn args this))) s =
           Continue (case c of
              Return v \<Rightarrow> s\<lparr>result := v, world := w', trace := trace s @ [OpCall i (result s)]\<rparr>
            | Throw e \<Rightarrow> s\<lparr>error := e, world := w', trace := trace s @ [OpCall i (result s)]\<rparr>)"
    using assms(1,3) by (cases c) (simp_all add: pipe_def runAsync_op_def)
  have "runAsync_op i (last (operations (pipeAsync fn args this))) s =
      runAsync_op i (last (operations (pipe fn args this))) s"
    using assms(2) by (simp add: pipeAsync_def pipe_def pipeAsync_step)
  with p show "runAsync_op i (last (operations (pipeAsync fn args this))) s =
           Continue (case c of
              Return v \<Rightarrow> s\<lparr>result := v, world := w', trace := trace s @ [OpCall i (result s)]\<rparr>
            | Throw e \<Rightarrow> s\<lparr>error := e, world := w', trace := trace s @ [OpCall i (result s)]\<rparr>)"
    by simp
qed

text \<open>
  C9, as amended. Under \<^verbatim>\<open>runAsync\<close>, on a pipeline whose seed is a lazy producer
  (whose result the executor awaits) or a value that is no promise, a step appended with
  \<^verbatim>\<open>pipeAsync(fn)\<close> and the same step appended with \<^verbatim>\<open>pipe(fn)\<close> give the same
  execution, whatever steps precede and follow: the same frames, calls, world and
  returned promise. A pipeline mixing transforms that return directly, transforms that
  return promises, and async-aware transforms returns a promise fulfilled with the
  direct composition of the functions they compute. And on a value that is no promise
  either step, once its call and the await of what it returned are through, has stored
  the returned or fulfilment value in \<open>result\<close>, or the thrown value or rejection reason
  in \<open>error\<close>.
\<close>

theorem async_interop:
  "(((isLazy this \<and> lazyInitializer this \<noteq> None) \<or>
    \<not> instanceofPromise (initialValue this) \<longrightarrow>
      runAsync_progress (then_steps further (pipeAsync fn args this)) w =
        runAsync_progress (then_steps further (pipe fn args this)) w \<and>
      runAsync (then_steps further (pipeAsync fn args this)) w =
        runAsync (then_steps further (pipe fn args this)) w) \<and>
   ((fst (producer pargs w) = Return (Plain x0) \<or>
     fst (producer pargs w) = Return (Promise (Fulfilled x0))) \<and>
    list_all2 (\<lambda>(asyncAware, fn, args) g. computes fn args g) steps gs \<longrightarrow>
      fst (runAsync (mixed steps (gluify producer pargs)) w) =
        Return (Promise (Fulfilled (direct gs x0))))) \<and>
   (\<not> truthy (error s) \<and> \<not> instanceofPromise (result s) \<and>
    awaitCall (fn (result s) args (world s)) = (Some c, w') \<longrightarrow>
      runAsync_op i (last (operations (pipeAsync fn args this))) s =
        Continue (case c of
           Return v \<Rightarrow>
             s\<lparr>result := v, world := w', trace := trace s @ [OpCall i (result s)]\<rparr>
         | Throw e \<Rightarrow>
             s\<lparr>error := e, world := w', trace := trace s @ [OpCall i (result s)]\<rparr>) \<and>
      runAsync_op i (last (operations (pipe fn args this))) s =
        Continue (case c of
           Return v \<Rightarrow>
             s\<lparr>result := v, world := w', trace := trace s @ [OpCall i (result s)]\<rparr>
         | Throw e \<Rightarrow>
             s\<lparr>error := e, world := w', trace := trace s @ [OpCall i (result s)]\<rparr>))"
proof (rule conjI)
  show "((isLazy this \<and> lazyInitializer this \<noteq> None) \<or>
    \<not> instanceofPromise (initialValue this) \<longrightarrow>
      runAsync_progress (then_steps further (pipeAsync fn args this)) w =
        runAsync_progress (then_steps further (pipe fn args this)) w \<and>
      runAsync (then_steps further (pipeAsync fn args this)) w =
        runAsync (then_steps further (pipe fn args this)) w) \<and>
   ((fst (producer pargs w) = Return (Plain x0) \<or>
     fst (producer pargs w) = Return (Promise (Fulfilled x0))) \<and>
    list_all2 (\<lambda>(asyncAware, fn, args) g. computes fn args g) steps gs \<longrightarrow>
      fst (runAsync (mixed steps (gluify producer pargs)) w) =
        Return (Promise (Fulfilled (direct gs x0))))"
    by (rule pipeAsync_redundant)
next
  show "\<not> truthy (error s) \<and> \<not> instanceofPromise (result s) \<and>
    awaitCall (fn (result s) args (world s)) = (Some c, w') \<longrightarrow>
      runAsync_op i (last (operations (pipeAsync fn args this))) s =
        Continue (case c of
           Return v \<Rightarrow>
             s\<lparr>result := v, world := w', trace := trace s @ [OpCall i (result s)]\<rparr>
         | Throw e \<Rightarrow>
             s\<lparr>error := e, world := w', trace := trace s @ [OpCall i (result s)]\<rparr>) \<and>
      runAsync_op i (last (operations (pipe fn args this))) s =
        Continue (case c of
           Return v \<Rightarrow>
             s\<lparr>result := v, world := w', trace := trace s @ [OpCall i (result s)]\<rparr>
         | Throw e \<Rightarrow>
             s\<lparr>error := e, world := w', trace := trace s @ [OpCall i (result s)]\<rparr>)"
    using async_step_outcome[of s fn args c w' i this] by blast
qed

text \<open>
  \<^verbatim>\<open>gluify(() => 5)\<close> with \<open>double\<close> appended either way and then \<open>add10\<close>;
  \<^verbatim>\<open>gluify(async () => 5).pipe(double).pipe(double_later).pipeAsync(add10)\<close>; and a
  transform returning a rejected promise, appended either way.
\<close>

theorem async_interop_witness:
  "runAsync (then_steps [Operation (\<lambda>value. add10 value [])] (pipeAsync double [] (gluify produce5 []))) 0 =
     runAsync (then_steps [Operation (\<lambda>value. add10 value [])] (pipe double [] (gluify produce5 []))) 0 \<and>
   runAsync (then_steps [Operation (\<lambda>value. add10 value [])] (pipe double [] (gluify produce5 []))) 0 =
     (Return (Promise (Fulfilled (Num 20))), 3) \<and>
   fst (runAsync (mixed [(False, double, []), (False, double_later, []), (True, add10, [])]
          (gluify async5 [])) 0) = Return (Promise (Fulfilled (Num 30))) \<and>
   direct [twice, twice, plus10] (Num 5) = Num 30 \<and>
   runAsync_op 0 (last (operations (pipeAsync reject_later_step [] (gluify produce5 [])))) five =
     Continue \<lparr>result = Plain (Num 5), error = Plain (Err ''boom''), world = 2,
       trace = [SeedCall, OpCall 0 (Plain (Num 5))]\<rparr> \<and>
   runAsync_op 0 (last (operations (pipe reject_later_step [] (gluify produce5 [])))) five =
     Continue \<lparr>result = Plain (Num 5), error = Plain (Err ''boom''), world = 2,
       trace = [SeedCall, OpCall 0 (Plain (Num 5))]\<rparr>"
proof -
  have lazy: "(isLazy (gluify produce5 []) \<and> lazyInitializer (gluify produce5 []) \<noteq> None) \<or>
      \<not> instanceofPromise (initialValue (gluify produce5 []))"
    by (simp add: gluify_def)
  have seed: "fst (async5 [] 0) = Return (Plain (Num 5)) \<or>
      fst (async5 [] 0) = Return (Promise (Fulfilled (Num 5)))"
    by (simp add: async5_def)
  have c1: "computes double [] twice"
    unfolding computes_def
  proof (intro allI)
    fix x w show "fst (double (Plain x) [] w) = Return (Plain (twice x)) \<or>
        fst (double (Plain x) [] w) = Return (Promise (Fulfilled (twice x)))"
      by (cases x) (simp_all add: double_def twice_def)
  qed
  have c2: "computes double_later [] twice"
    by (simp add: computes_def double_later_def)
  have c3: "computes add10 [] plus10"
    unfolding computes_def
  proof (intro allI)
    fix x w show "fst (add10 (Plain x) [] w) = Return (Plain (plus10 x)) \<or>
        fst (add10 (Plain x) [] w) = Return (Promise (Fulfilled (plus10 x)))"
      by (cases x) (simp_all add: add10_def plus10_def)
  qed
  have steps: "list_all2 (\<lambda>(asyncAware, fn, args) g. computes fn args g)
      [(False, double, []), (False, double_later, []), (True, add10, [])] [twice, twice, plus10]"
    by (simp add: c1 c2 c3)
  have d: "direct [twice, twice, plus10] (Num 5) = Num 30"
    by (simp add: direct_def twice_def plus10_def)
  have v: "runAsync (then_steps [Operation (\<lambda>value. add10 value [])] (pipe double [] (gluify produce5 []))) 0 =
     (Return (Promise (Fulfilled (Num 20))), 3)"
    by (simp add: runAsync_def async_def runAsync_progress_def runAsync_init_def then_steps_def
        pipe_def gluify_def produce5_def runAsync_op_def double_def add10_def finish_def)
  have rej: "\<not> truthy (error five) \<and> \<not> instanceofPromise (result five) \<and>
      awaitCall (reject_later_step (result five) [] (world five)) =
        (Some (Throw (Plain (Err ''boom''))), 2)"
    by (simp add: five_def reject_later_step_def)
  note inst = async_interop[where this = "gluify produce5 []" and fn = double and args = "[]"
        and further = "[Operation (\<lambda>value. add10 value [])]" and w = 0
        and producer = async5 and pargs = "[]" and ?x0.0 = "Num 5"
        and steps = "[(False, double, []), (False, double_later, []), (True, add10, [])]"
        and gs = "[twice, twice, plus10]"]
  note step = async_interop[where this = "gluify produce5 []" and fn = reject_later_step
        and args = "[]" and s = five and i = 0 and c = "Throw (Plain (Err ''boom''))" and w' = 2]
  from inst[THEN conjunct1, THEN conjunct1, THEN mp, OF lazy]
  have same: "runAsync (then_steps [Operation (\<lambda>value. add10 value [])]
        (pipeAsync double [] (gluify produce5 []))) 0 =
      runAsync (then_steps [Operation (\<lambda>value. add10 value [])]
        (pipe double [] (gluify produce5 []))) 0"
    by simp
  from step[THEN conjunct2, THEN mp, OF rej]
  have fail: "runAsync_op 0 (last (operations (pipeAsync reject_later_step [] (gluify produce5 []))))
        five =
      Continue \<lparr>result = Plain (Num 5), error = Plain (Err ''boom''), world = 2,
        trace = [SeedCall, OpCall 0 (Plain (Num 5))]\<rparr>"
     "runAsync_op 0 (last (operations (pipe reject_later_step [] (gluify produce5 [])))) five =
      Continue \<lparr>result = Plain (Num 5), error = Plain (Err ''boom''), world = 2,
        trace = [SeedCall, OpCall 0 (Plain (Num 5))]\<rparr>"
    by (simp_all add: five_def)
  from inst[THEN conjunct1, THEN conjunct2, THEN mp, OF conjI[OF seed steps] ] same d v fail
  show ?thesis by simp
qed

text \<open>
  C9 as stated fails on a pipeline whose seed is a promise held as a concrete value,
  \<^verbatim>\<open>new Gluify(Promise.resolve(5))\<close>: \<^verbatim>\<open>runAsync\<close> awaits a producer's result but not a
  concrete seed, so a \<^verbatim>\<open>pipe\<close> step receives the promise and a \<^verbatim>\<open>pipeAsync\<close> step
  its resolution.
\<close>

theorem unawaited_promise_seed:
  "runAsync (pipe kind [] promised) 0 =
     (Return (Promise (Fulfilled (Str ''promise''))), 1) \<and>
   runAsync (pipeAsync kind [] promised) 0 =
     (Return (Promise (Fulfilled (Str ''plain''))), 1)"
  by (simp add: runAsync_def async_def runAsync_progress_def runAsync_init_def runAsync_op_def
      finish_def pipe_def pipeAsync_def pipeAsync_operation_def promised_def kind_def)

section \<open>\<^verbatim>\<open>sort\<close> and \<^verbatim>\<open>reverse\<close> copy their input\<close>

text \<open>
  C10. On a reference to an allocated array, the operation appended by \<^verbatim>\<open>reverse()\<close>
  returns a reference to a new array, the reversed copy, and the heap is the old heap
  with that array added: the input array, like every array there was, is unchanged.
  The operation appended by \<^verbatim>\<open>sort(compareFn)\<close> likewise leaves the old heap followed
  by one new array, and returns the reference to it unless the comparator throws.
\<close>

theorem sort_reverse_copy:
  assumes "heap_runtime sorter N" and "a < length h"
  shows "call (last (operations (reverse N this))) (Plain (Arr a)) h =
           (Return (Plain (Arr (length h))), h @ [rev (h ! a)]) \<and>
         snd (call (last (operations (sort' N compareFn this))) (Plain (Arr a)) h) =
           h @ [fst (sorter compareFn (h ! a))] \<and>
         fst (call (last (operations (sort' N compareFn this))) (Plain (Arr a)) h) =
           (case snd (sorter compareFn (h ! a)) of
              None \<Rightarrow> Return (Plain (Arr (length h)))
            | Some e \<Rightarrow> Throw e)"
proof -
  from assms(1) have N: "spread_array N = heap_spread"
    "invoke N ''reverse'' = (\<lambda>receiver args. heap_reverse receiver)"
    "Array_sort N = heap_sort sorter"
    by (simp_all add: heap_runtime_def)
  have r: "reverse_operation N (Plain (Arr a)) h =
      (Return (Plain (Arr (length h))), h @ [rev (h ! a)])"
    using assms(2) by (simp add: reverse_operation_def andThen_def N nth_append)
  have s: "sort_operation N compareFn (Plain (Arr a)) h =
      (case sorter compareFn (h ! a) of
         (xs, None) \<Rightarrow> (Return (Plain (Arr (length h))), h @ [xs])
       | (xs, Some e) \<Rightarrow> (Throw e, h @ [xs]))"
    using assms(2) by (simp add: sort_operation_def andThen_def N nth_append)
  show ?thesis
    by (simp add: reverse_def sort'_def r s split: prod.splits option.splits)
qed

theorem sort_reverse_copy_witness:
  "heap_runtime numeric_order array_runtime \<and>
   call (last (operations (reverse array_runtime (gluify (\<lambda>args h. (Return (Plain (Arr 0)), h)) []))))
     (Plain (Arr 0)) numbers =
     (Return (Plain (Arr 1)),
      [ [Plain (Num 3), Plain (Num 1), Plain (Num 2)], [Plain (Num 2), Plain (Num 1), Plain (Num 3)] ]) \<and>
   call (last (operations (sort' array_runtime None (gluify (\<lambda>args h. (Return (Plain (Arr 0)), h)) []))))
     (Plain (Arr 0)) numbers =
     (Return (Plain (Arr 1)),
      [ [Plain (Num 3), Plain (Num 1), Plain (Num 2)], [Plain (Num 1), Plain (Num 2), Plain (Num 3)] ])"
proof -
  have rt: "heap_runtime numeric_order array_runtime"
    by (simp add: heap_runtime_def array_runtime_def)
  have len: "0 < length numbers"
    by (simp add: numbers_def)
  from sort_reverse_copy[OF rt len, where compareFn = None
      and this = "gluify (\<lambda>args h. (Return (Plain (Arr 0)), h)) []"] rt
  show ?thesis
    by (simp add: numbers_def numeric_order_def prod_eq_iff)
qed

end
